theory Spec2Isabelle
  imports Complex_Main
begin

section \<open>JavaScript strings\<close>

text \<open>
  A JavaScript string is a sequence of code units. It is modelled as a \<open>string\<close>, one
  \<open>char\<close> per code unit, for the code units below 256. The operations below are the
  methods of \<open>String.prototype\<close> and \<open>Array.prototype\<close> that the services call.
\<close>

definition is_ws :: "char \<Rightarrow> bool" where
  \<comment> \<open>the white space and line terminators that \<open>trim\<close> strips, among the code units below 256\<close>
  "is_ws c = (c \<in> set [CHR 0x09, CHR 0x0A, CHR 0x0B, CHR 0x0C, CHR 0x0D, CHR 0x20, CHR 0xA0])"

definition trim :: "string \<Rightarrow> string" where
  "trim s = rev (dropWhile is_ws (rev (dropWhile is_ws s)))"

fun startsWith :: "string \<Rightarrow> string \<Rightarrow> bool" where
  "startsWith s [] = True"
| "startsWith [] (p # ps) = False"
| "startsWith (c # cs) (p # ps) = (c = p \<and> startsWith cs ps)"

fun includes_js :: "string \<Rightarrow> string \<Rightarrow> bool" where
  "includes_js [] p = (p = [])"
| "includes_js (c # cs) p = (startsWith (c # cs) p \<or> includes_js cs p)"

text \<open>
  \<open>split_from sep cur s\<close> scans \<open>s\<close> from the left; \<open>cur\<close> is the piece read since the
  last separator. Separators are matched leftmost first and do not overlap.
\<close>

function split_from :: "string \<Rightarrow> string \<Rightarrow> string \<Rightarrow> string list" where
  "split_from sep cur [] = [cur]"
| "split_from sep cur (c # cs) =
     (if sep \<noteq> [] \<and> startsWith (c # cs) sep
      then cur # split_from sep [] (drop (length sep) (c # cs))
      else split_from sep (cur @ [c]) cs)"
  by pat_completeness auto
termination
  by (relation "measure (\<lambda>(sep, cur, s). length s)") auto

definition split :: "string \<Rightarrow> string \<Rightarrow> string list" where
  \<comment> \<open>\<open>s.split(sep)\<close>; an empty separator cuts between all code units\<close>
  "split s sep = (if sep = [] then map (\<lambda>c. [c]) s else split_from sep [] s)"

fun join :: "string \<Rightarrow> string list \<Rightarrow> string" where
  "join sep [] = []"
| "join sep [p] = p"
| "join sep (p # q # ps) = p @ sep @ join sep (q # ps)"

definition template :: "string option \<Rightarrow> string" where
  \<comment> \<open>a value that may be \<open>undefined\<close>, inside a template literal\<close>
  "template v = (case v of None \<Rightarrow> ''undefined'' | Some s \<Rightarrow> s)"

definition trimEnd :: "string \<Rightarrow> string" where
  \<comment> \<open>\<open>s.trimEnd()\<close>; no service calls it, it names what \<open>trim\<close> leaves of a key\<close>
  "trimEnd s = rev (dropWhile is_ws (rev s))"

text \<open>
  \<open>clear_before sep pre rest\<close>: in \<open>pre @ rest\<close> no occurrence of \<open>sep\<close> starts inside
  \<open>pre\<close>.
\<close>

fun clear_before :: "string \<Rightarrow> string \<Rightarrow> string \<Rightarrow> bool" where
  "clear_before sep [] rest = True"
| "clear_before sep (c # cs) rest =
     (\<not> startsWith (c # cs @ rest) sep \<and> clear_before sep cs rest)"

section \<open>Exceptions\<close>

text \<open>
  What is thrown: one of Nest's exceptions, some other \<open>Error\<close>, or a value that is not an
  instance of \<open>Error\<close> (\<open>Thrown\<close>, with its \<open>message\<close> property if it has one; the error
  object of the geocoding SDK is such a value). \<open>message\<close> is \<open>error.message\<close> as it
  appears inside a template literal.
\<close>

datatype exn =
    BadRequestException string
  | NotFoundException string
  | InternalServerErrorException string
  | Error string
  | Thrown "string option"

fun message :: "exn \<Rightarrow> string" where
  "message (BadRequestException m) = m"
| "message (NotFoundException m) = m"
| "message (InternalServerErrorException m) = m"
| "message (Error m) = m"
| "message (Thrown m) = template m"

section \<open>MinioService: the pure part\<close>

text \<open>The enum \<open>BucketType\<close> has one member, whose value is the bucket's name.\<close>

definition LOCATIONS :: string where
  "LOCATIONS = ''locations''"

definition validBuckets :: "string list" where
  \<comment> \<open>\<open>Object.values(BucketType)\<close>\<close>
  "validBuckets = [LOCATIONS]"

text \<open>\<open>Express.Multer.File\<close>, the fields the service reads.\<close>

record multer_file =
  originalname :: string
  mimetype :: string
  fsize :: nat
  buffer :: string

definition maxSize :: nat where
  "maxSize = 12 * 1024 * 1024"

definition allowedTypes :: "string list" where
  "allowedTypes = [''image/jpeg'', ''image/jpg'', ''image/png'', ''image/gif'',
                   ''image/webp'', ''image/svg+xml'']"

definition validateFile :: "multer_file \<Rightarrow> exn + unit" where
  "validateFile f =
     (if fsize f > maxSize then Inl (BadRequestException ''Arquivo maior que 12MB'')
      else if fsize f = 0 then Inl (BadRequestException ''Arquivo vazio'')
      else if mimetype f \<notin> set allowedTypes
        then Inl (BadRequestException
               (''Tipo de arquivo n'' @ [CHR 0xE3] @ ''o permitido: '' @ mimetype f @
                ''. Tipos permitidos: '' @ join '', '' allowedTypes))
      else Inr ())"

definition extractBucketAndFileName :: "string \<Rightarrow> string option \<times> string option" where
  "extractBucketAndFileName filePath =
     (if filePath = [] then (None, None)
      else
        let parts = split (trim filePath) ''/'' in
        if length parts < 2 then (None, None)
        else
          let bucketName = parts ! 0;
              fileName = join ''/'' (drop 1 parts)
          in if bucketName \<notin> set validBuckets then (None, None)
             else (Some bucketName, Some fileName))"

definition falsy :: "string option \<Rightarrow> bool" where
  \<comment> \<open>\<open>!v\<close> for a value that is a string, \<open>null\<close> or \<open>undefined\<close>\<close>
  "falsy v = (case v of None \<Rightarrow> True | Some s \<Rightarrow> s = [])"

text \<open>The three configuration values that \<open>getFileUrl\<close> reads; each may be unset.\<close>

record config =
  MINIO_ENDPOINT :: "string option"
  MINIO_PORT :: "string option"
  MINIO_USE_SSL :: "string option"

definition portSuffix :: "config \<Rightarrow> string" where
  "portSuffix cfg =
     (let port = MINIO_PORT cfg; useSSL = (MINIO_USE_SSL cfg = Some ''true'') in
      if (useSSL \<and> port = Some ''443'') \<or> (\<not> useSSL \<and> port = Some ''80'') then ''''
      else '':'' @ template port)"

definition getFileUrl :: "config \<Rightarrow> string \<Rightarrow> string" where
  "getFileUrl cfg filePath =
     (if filePath = [] then ''''
      else case extractBucketAndFileName filePath of
        (bucketName, fileName) \<Rightarrow>
          if falsy bucketName \<or> falsy fileName then ''''
          else
            let endpoint = MINIO_ENDPOINT cfg;
                useSSL = (MINIO_USE_SSL cfg = Some ''true'');
                protocol = (if useSSL then ''https'' else ''http'')
            in protocol @ ''://'' @ template endpoint @ portSuffix cfg @ ''/'' @
               template bucketName @ ''/'' @ template fileName)"

section \<open>LocationsService: recognising a stored image\<close>

definition isMinioPath :: "string \<Rightarrow> bool" where
  "isMinioPath imageUrl =
     (if imageUrl = [] then False
      else includes_js imageUrl ''/locations/'' \<or> startsWith imageUrl ''locations/'')"

definition extractMinioPath :: "string \<Rightarrow> string" where
  "extractMinioPath imageUrl =
     (if includes_js imageUrl ''/locations/''
      then let parts = split imageUrl ''/locations/'' in
           ''locations/'' @ (if 1 < length parts then parts ! 1 else ''undefined'')
      else imageUrl)"

text \<open>
  The specification's \<open>BuildURL(bucket, key)\<close> is \<open>getFileUrl\<close> on the path
  \<open>bucket/key\<close>. Its \<open>ParseURL\<close> is the way \<open>update\<close> and \<open>remove\<close> go from an image
  value back to a bucket and a key: \<open>isMinioPath\<close>, then \<open>extractMinioPath\<close>, then the
  \<open>extractBucketAndFileName\<close> and the check of its result at the start of \<open>deleteFile\<close>.
\<close>

definition BuildURL :: "config \<Rightarrow> string \<Rightarrow> string \<Rightarrow> string" where
  "BuildURL cfg bucket key = getFileUrl cfg (bucket @ ''/'' @ key)"

definition ParseURL :: "string \<Rightarrow> (string \<times> string) option" where
  "ParseURL url =
     (if isMinioPath url
      then case extractBucketAndFileName (extractMinioPath url) of
        (bucketName, fileName) \<Rightarrow>
          if falsy bucketName \<or> falsy fileName then None
          else Some (template bucketName, template fileName)
      else None)"

section \<open>Records, requests and the calls that are observed\<close>

text \<open>
  A row of the \<open>location\<close> table, the fields the service writes. The query's
  \<open>include\<close> of the owning user only adds a projection of another table to the value
  returned and is left out.
\<close>

record location =
  loc_id :: string
  loc_name :: string
  loc_description :: "string option"
  loc_latitude :: real
  loc_longitude :: real
  loc_image :: "string option"
  loc_userId :: string

record CreateLocationDto =
  c_name :: string
  c_description :: "string option"
  c_address :: string
  c_image :: "string option"

text \<open>
  The request of \<open>update\<close>, whose parameter has the type \<open>UpdateLocationDto\<close>. The class
  is declared in the source with \<open>name\<close>, \<open>description\<close>, \<open>address\<close> and \<open>image\<close> (a URL),
  each optional; \<open>update\<close> reads \<open>keepImage\<close> from the same parameter, so the record has
  that field too. After \<open>const { address, keepImage, ...rest }\<close>, \<open>rest\<close> is what else the
  request holds: \<open>name\<close>, \<open>description\<close> and \<open>image\<close>.
\<close>

record UpdateLocationDto =
  u_name :: "string option"
  u_description :: "string option"
  u_address :: "string option"
  u_image :: "string option"
  u_keepImage :: "bool option"

text \<open>The \<open>data\<close> of \<open>prisma.location.create\<close> and of \<open>prisma.location.update\<close>;
  in the latter a field that is absent is not written.\<close>

record create_data =
  cd_name :: string
  cd_description :: "string option"
  cd_latitude :: real
  cd_longitude :: real
  cd_image :: "string option"
  cd_userId :: string

record update_data =
  ud_name :: "string option"
  ud_description :: "string option"
  ud_latitude :: "real option"
  ud_longitude :: "real option"
  ud_image :: "string option"

text \<open>A feature of the geocoding response: \<open>center\<close> is \<open>[longitude, latitude]\<close>.\<close>

record feature =
  center :: "real \<times> real"
  place_name :: string

record GeocodeResult =
  latitude :: real
  longitude :: real
  formattedAddress :: "string option"

text \<open>
  Every call is recorded, in order. \<open>GeocodeCall\<close>, \<open>UploadCall\<close>, \<open>DeleteCall\<close> and the
  four database events are the calls of \<open>LocationsService\<close> on its collaborators
  (\<open>MapboxService\<close>, \<open>MinioService\<close>, \<open>PrismaService\<close>); \<open>ForwardGeocode\<close>, \<open>PutObject\<close>,
  \<open>StatObject\<close> and \<open>RemoveObject\<close> are the calls of the two services on their clients.
\<close>

datatype event =
    GeocodeCall string
  | ForwardGeocode string
  | UploadCall "multer_file option" string
  | DeleteCall string
  | PutObject string string
  | StatObject string string
  | RemoveObject string string
  | FindUnique string
  | DbCreate create_data
  | DbUpdate string update_data
  | DbDelete string

record world =
  trace :: "event list"
  objects :: "string \<times> string \<rightharpoonup> multer_file"
  db :: "string \<rightharpoonup> location"

text \<open>
  What the program does not decide: the configuration, which calls on a client or on the
  database fail and with what (\<open>fault n ev\<close> for the call \<open>ev\<close> made after \<open>n\<close> recorded
  events), the features the geocoding service answers with, the identifiers drawn, and
  Node's \<open>path.extname\<close>.
\<close>

record env =
  cfg :: config
  fault :: "nat \<Rightarrow> event \<Rightarrow> exn option"
  features :: "nat \<Rightarrow> string \<Rightarrow> feature list option"
  randomUUID :: "nat \<Rightarrow> string"
  extname :: "string \<Rightarrow> string"
  new_id :: "nat \<Rightarrow> string"

definition emit :: "event \<Rightarrow> world \<Rightarrow> world" where
  "emit ev w = w\<lparr>trace := trace w @ [ev]\<rparr>"

definition is_service_call :: "event \<Rightarrow> bool" where
  "is_service_call ev =
     (case ev of
        ForwardGeocode _ \<Rightarrow> False | PutObject _ _ \<Rightarrow> False
      | StatObject _ _ \<Rightarrow> False | RemoveObject _ _ \<Rightarrow> False
      | _ \<Rightarrow> True)"

definition calls :: "world \<Rightarrow> event list" where
  \<comment> \<open>the calls of \<open>LocationsService\<close> on its collaborators, in order\<close>
  "calls w = filter is_service_call (trace w)"

fun deleted :: "event \<Rightarrow> string list" where
  "deleted (DeleteCall path) = [path]"
| "deleted _ = []"

definition deletions :: "world \<Rightarrow> string list" where
  \<comment> \<open>the paths that \<open>deleteFile\<close> was called with, in order\<close>
  "deletions w = concat (map deleted (calls w))"

fun written_image :: "event \<Rightarrow> string list" where
  "written_image (DbUpdate ident d) = (case ud_image d of None \<Rightarrow> [] | Some url \<Rightarrow> [url])"
| "written_image _ = []"

definition image_writes :: "world \<Rightarrow> string list" where
  \<comment> \<open>the \<open>image\<close> values that \<open>prisma.location.update\<close> was given, in order\<close>
  "image_writes w = concat (map written_image (calls w))"

section \<open>The clients\<close>

definition forwardGeocode :: "env \<Rightarrow> string \<Rightarrow> world \<Rightarrow> (exn + feature list option) \<times> world" where
  \<comment> \<open>\<open>geocodingClient.forwardGeocode({query, limit: 1}).send()\<close>, giving \<open>response.body.features\<close>\<close>
  "forwardGeocode E query w =
     (let n = length (trace w); ev = ForwardGeocode query; w' = emit ev w in
      case fault E n ev of
        Some e \<Rightarrow> (Inl e, w')
      | None \<Rightarrow> (Inr (features E n query), w'))"

definition putObject :: "env \<Rightarrow> string \<Rightarrow> string \<Rightarrow> multer_file \<Rightarrow> world \<Rightarrow> (exn + unit) \<times> world" where
  "putObject E bucketName fileName f w =
     (let n = length (trace w); ev = PutObject bucketName fileName; w' = emit ev w in
      case fault E n ev of
        Some e \<Rightarrow> (Inl e, w')
      | None \<Rightarrow> (Inr (), w'\<lparr>objects := (objects w')((bucketName, fileName) \<mapsto> f)\<rparr>))"

definition statObject :: "env \<Rightarrow> string \<Rightarrow> string \<Rightarrow> world \<Rightarrow> (exn + multer_file) \<times> world" where
  "statObject E bucketName fileName w =
     (let n = length (trace w); ev = StatObject bucketName fileName; w' = emit ev w in
      case fault E n ev of
        Some e \<Rightarrow> (Inl e, w')
      | None \<Rightarrow>
          (case objects w (bucketName, fileName) of
             None \<Rightarrow> (Inl (Error ''Not Found''), w')
           | Some f \<Rightarrow> (Inr f, w')))"

definition removeObject :: "env \<Rightarrow> string \<Rightarrow> string \<Rightarrow> world \<Rightarrow> (exn + unit) \<times> world" where
  "removeObject E bucketName fileName w =
     (let n = length (trace w); ev = RemoveObject bucketName fileName; w' = emit ev w in
      case fault E n ev of
        Some e \<Rightarrow> (Inl e, w')
      | None \<Rightarrow> (Inr (), w'\<lparr>objects := (objects w')((bucketName, fileName) := None)\<rparr>))"

definition location_findUnique :: "env \<Rightarrow> string \<Rightarrow> world \<Rightarrow> (exn + location option) \<times> world" where
  "location_findUnique E ident w =
     (let n = length (trace w); ev = FindUnique ident; w' = emit ev w in
      case fault E n ev of
        Some e \<Rightarrow> (Inl e, w')
      | None \<Rightarrow> (Inr (db w ident), w'))"

definition location_create :: "env \<Rightarrow> create_data \<Rightarrow> world \<Rightarrow> (exn + location) \<times> world" where
  "location_create E d w =
     (let n = length (trace w); ev = DbCreate d; w' = emit ev w in
      case fault E n ev of
        Some e \<Rightarrow> (Inl e, w')
      | None \<Rightarrow>
          let row = \<lparr>loc_id = new_id E n, loc_name = cd_name d,
                     loc_description = cd_description d, loc_latitude = cd_latitude d,
                     loc_longitude = cd_longitude d, loc_image = cd_image d,
                     loc_userId = cd_userId d\<rparr>
          in (Inr row, w'\<lparr>db := (db w')(loc_id row \<mapsto> row)\<rparr>))"

definition or_else :: "'a option \<Rightarrow> 'a \<Rightarrow> 'a" where
  "or_else v d = (case v of None \<Rightarrow> d | Some x \<Rightarrow> x)"

definition location_update :: "env \<Rightarrow> string \<Rightarrow> update_data \<Rightarrow> world \<Rightarrow> (exn + location) \<times> world" where
  "location_update E ident d w =
     (let n = length (trace w); ev = DbUpdate ident d; w' = emit ev w in
      case fault E n ev of
        Some e \<Rightarrow> (Inl e, w')
      | None \<Rightarrow>
          (case db w ident of
             None \<Rightarrow> (Inl (Error ''Record to update not found.''), w')
           | Some row \<Rightarrow>
               let row' = row\<lparr>loc_name := or_else (ud_name d) (loc_name row),
                               loc_description :=
                                 (case ud_description d of None \<Rightarrow> loc_description row
                                  | Some x \<Rightarrow> Some x),
                               loc_latitude := or_else (ud_latitude d) (loc_latitude row),
                               loc_longitude := or_else (ud_longitude d) (loc_longitude row),
                               loc_image :=
                                 (case ud_image d of None \<Rightarrow> loc_image row
                                  | Some x \<Rightarrow> Some x)\<rparr>
               in (Inr row', w'\<lparr>db := (db w')(ident \<mapsto> row')\<rparr>)))"

section \<open>MapboxService\<close>

definition geocode_catch :: "exn \<Rightarrow> exn" where
  \<comment> \<open>the \<open>catch\<close> of \<open>geocodeAddress\<close>: a \<open>BadRequestException\<close> passes, anything else is
      wrapped, with \<open>error instanceof Error ? error.message : 'Unknown error'\<close>\<close>
  "geocode_catch error =
     (case error of
        BadRequestException m \<Rightarrow> error
      | Thrown v \<Rightarrow> InternalServerErrorException (''Geocoding service failed: '' @ ''Unknown error'')
      | _ \<Rightarrow> InternalServerErrorException (''Geocoding service failed: '' @ message error))"

definition geocodeAddress :: "env \<Rightarrow> string \<Rightarrow> world \<Rightarrow> (exn + GeocodeResult) \<times> world" where
  "geocodeAddress E address w =
     (let w0 = emit (GeocodeCall address) w in
      if address = [] \<or> length (trim address) = 0
      then (Inl (BadRequestException ''Address cannot be empty''), w0)
      else
        case forwardGeocode E (trim address) w0 of
          (Inl error, w1) \<Rightarrow> (Inl (geocode_catch error), w1)
        | (Inr None, w1) \<Rightarrow>
            (Inl (geocode_catch (BadRequestException (''Address not found: '' @ address))), w1)
        | (Inr (Some []), w1) \<Rightarrow>
            (Inl (geocode_catch (BadRequestException (''Address not found: '' @ address))), w1)
        | (Inr (Some (feature # _)), w1) \<Rightarrow>
            (Inr \<lparr>latitude = snd (center feature), longitude = fst (center feature),
                  formattedAddress = Some (place_name feature)\<rparr>, w1))"

text \<open>
  The source holds a second \<open>MapboxService\<close>, without the check of the address: the query
  is the address as given, and every failure becomes a plain \<open>Error\<close>. With
  \<open>features\<close> undefined, reading its \<open>length\<close> is a \<open>TypeError\<close>, caught like the rest.
\<close>

definition geocodeAddress_unchecked :: "env \<Rightarrow> string \<Rightarrow> world \<Rightarrow> (exn + GeocodeResult) \<times> world" where
  "geocodeAddress_unchecked E address w =
     (let w0 = emit (GeocodeCall address) w;
          wrap = (\<lambda>m. Error (''Geocoding failed: '' @ m)) in
      case forwardGeocode E address w0 of
        (Inl error, w1) \<Rightarrow> (Inl (wrap (message error)), w1)
      | (Inr None, w1) \<Rightarrow>
          (Inl (wrap (''Cannot read properties of undefined (reading '' @ [CHR 0x27] @
                      ''length'' @ [CHR 0x27] @ '')'')), w1)
      | (Inr (Some []), w1) \<Rightarrow> (Inl (wrap ''Address not found''), w1)
      | (Inr (Some (feature # _)), w1) \<Rightarrow>
          (Inr \<lparr>latitude = snd (center feature), longitude = fst (center feature),
                formattedAddress = None\<rparr>, w1))"

section \<open>MinioService: upload and delete\<close>

definition uploadFile :: "env \<Rightarrow> multer_file option \<Rightarrow> string \<Rightarrow> world \<Rightarrow> (exn + string) \<times> world" where
  "uploadFile E file bucketType w =
     (let w0 = emit (UploadCall file bucketType) w;
          wrap = (\<lambda>error. BadRequestException (''Erro no upload: '' @ message error)) in
      case file of
        None \<Rightarrow> (Inl (wrap (BadRequestException ''Nenhum arquivo fornecido'')), w0)
      | Some f \<Rightarrow>
          (case validateFile f of
             Inl error \<Rightarrow> (Inl (wrap error), w0)
           | Inr _ \<Rightarrow>
               let bucketName = bucketType;
                   fileExtension = extname E (originalname f);
                   fileName = randomUUID E (length (trace w0)) @ fileExtension
               in case putObject E bucketName fileName f w0 of
                    (Inl error, w1) \<Rightarrow> (Inl (wrap error), w1)
                  | (Inr _, w1) \<Rightarrow> (Inr (bucketName @ ''/'' @ fileName), w1)))"

definition fileExists :: "env \<Rightarrow> string \<Rightarrow> string \<Rightarrow> world \<Rightarrow> bool \<times> world" where
  "fileExists E bucketName fileName w =
     (case statObject E bucketName fileName w of
        (Inl error, w1) \<Rightarrow> (False, w1)
      | (Inr _, w1) \<Rightarrow> (True, w1))"

definition deleteFile :: "env \<Rightarrow> string \<Rightarrow> world \<Rightarrow> (exn + unit) \<times> world" where
  "deleteFile E filePath w =
     (let w0 = emit (DeleteCall filePath) w;
          wrap = (\<lambda>error. BadRequestException (''Erro ao deletar: '' @ message error)) in
      if filePath = []
      then (Inl (wrap (BadRequestException
                   (''Caminho do arquivo n'' @ [CHR 0xE3] @ ''o fornecido''))), w0)
      else
        case extractBucketAndFileName filePath of
          (bucketName, fileName) \<Rightarrow>
            if falsy bucketName \<or> falsy fileName
            then (Inl (wrap (BadRequestException
                         (''Caminho do arquivo inv'' @ [CHR 0xE1] @ ''lido''))), w0)
            else
              case fileExists E (the bucketName) (the fileName) w0 of
                (exists, w1) \<Rightarrow>
                  if \<not> exists then (Inr (), w1)
                  else
                    case removeObject E (the bucketName) (the fileName) w1 of
                      (Inl error, w2) \<Rightarrow> (Inl (wrap error), w2)
                    | (Inr _, w2) \<Rightarrow> (Inr (), w2))"

definition deleteFile_caught :: "env \<Rightarrow> string option \<Rightarrow> world \<Rightarrow> world" where
  \<comment> \<open>\<open>if (path) { await deleteFile(path).catch(err => console.error(..., err)) }\<close>\<close>
  "deleteFile_caught E path w =
     (if falsy path then w else snd (deleteFile E (the path) w))"

section \<open>LocationsService\<close>

definition findOne :: "env \<Rightarrow> string \<Rightarrow> world \<Rightarrow> (exn + location) \<times> world" where
  "findOne E ident w =
     (case location_findUnique E ident w of
        (Inl error, w1) \<Rightarrow> (Inl error, w1)
      | (Inr None, w1) \<Rightarrow> (Inl (NotFoundException ''Location not found''), w1)
      | (Inr (Some location), w1) \<Rightarrow> (Inr location, w1))"

text \<open>
  A \<open>try\<close> block is a function that returns, with its result, the value that
  \<open>uploadedFilePath\<close> has when the block is left: the \<open>catch\<close> block reads it.
\<close>

definition create_image ::
  "env \<Rightarrow> CreateLocationDto \<Rightarrow> multer_file option \<Rightarrow> world
     \<Rightarrow> (exn + string option \<times> string option) \<times> world" where
  \<comment> \<open>\<open>imageUrl\<close> and \<open>uploadedFilePath\<close> after the \<open>if (imageFile)\<close> of \<open>create\<close>\<close>
  "create_image E dto imageFile w =
     (case imageFile of
        None \<Rightarrow> (Inr (c_image dto, None), w)
      | Some f \<Rightarrow>
          (case uploadFile E imageFile LOCATIONS w of
             (Inl error, w1) \<Rightarrow> (Inl error, w1)
           | (Inr path, w1) \<Rightarrow> (Inr (Some (getFileUrl (cfg E) path), Some path), w1)))"

definition create_data_of ::
  "CreateLocationDto \<Rightarrow> GeocodeResult \<Rightarrow> string option \<Rightarrow> string \<Rightarrow> create_data" where
  "create_data_of dto geo imageUrl userId =
     \<lparr>cd_name = c_name dto, cd_description = c_description dto,
      cd_latitude = latitude geo, cd_longitude = longitude geo,
      cd_image = imageUrl, cd_userId = userId\<rparr>"

definition create_try ::
  "env \<Rightarrow> CreateLocationDto \<Rightarrow> string \<Rightarrow> multer_file option \<Rightarrow> GeocodeResult \<Rightarrow> world
     \<Rightarrow> ((exn + location) \<times> string option) \<times> world" where
  "create_try E dto userId imageFile geo w =
     (case create_image E dto imageFile w of
        (Inl error, w1) \<Rightarrow> ((Inl error, None), w1)
      | (Inr (imageUrl, uploadedFilePath), w1) \<Rightarrow>
          (case location_create E (create_data_of dto geo imageUrl userId) w1 of
             (Inl error, w2) \<Rightarrow> ((Inl error, uploadedFilePath), w2)
           | (Inr location, w2) \<Rightarrow> ((Inr location, uploadedFilePath), w2)))"

definition create ::
  "env \<Rightarrow> CreateLocationDto \<Rightarrow> string \<Rightarrow> multer_file option \<Rightarrow> world
     \<Rightarrow> (exn + location) \<times> world" where
  "create E dto userId imageFile w =
     (case geocodeAddress E (c_address dto) w of
        (Inl error, w1) \<Rightarrow> (Inl error, w1)
      | (Inr geo, w1) \<Rightarrow>
          (case create_try E dto userId imageFile geo w1 of
             ((Inr location, uploadedFilePath), w2) \<Rightarrow> (Inr location, w2)
           | ((Inl error, uploadedFilePath), w2) \<Rightarrow>
               (Inl error, deleteFile_caught E uploadedFilePath w2)))"

text \<open>
  The source holds an earlier \<open>LocationsService\<close> as well, whose \<open>create\<close> has the same
  steps and no \<open>try\<close>: whatever fails is thrown as it is, and nothing is undone. Of the
  \<open>MapboxService\<close> it is given, only the outcome of \<open>geocodeAddress\<close> matters below.
\<close>

definition create_plain ::
  "env \<Rightarrow> CreateLocationDto \<Rightarrow> string \<Rightarrow> multer_file option \<Rightarrow> world
     \<Rightarrow> (exn + location) \<times> world" where
  "create_plain E dto userId imageFile w =
     (case geocodeAddress E (c_address dto) w of
        (Inl error, w1) \<Rightarrow> (Inl error, w1)
      | (Inr geo, w1) \<Rightarrow>
          (case create_image E dto imageFile w1 of
             (Inl error, w2) \<Rightarrow> (Inl error, w2)
           | (Inr (imageUrl, imagePath), w2) \<Rightarrow>
               location_create E (create_data_of dto geo imageUrl userId) w2))"

definition update_coordinates ::
  "env \<Rightarrow> string option \<Rightarrow> world \<Rightarrow> (exn + real option \<times> real option) \<times> world" where
  \<comment> \<open>\<open>coordinates\<close> after the \<open>if (address)\<close> of \<open>update\<close>\<close>
  "update_coordinates E address w =
     (if falsy address then (Inr (None, None), w)
      else
        case geocodeAddress E (the address) w of
          (Inl error, w1) \<Rightarrow> (Inl error, w1)
        | (Inr geo, w1) \<Rightarrow> (Inr (Some (latitude geo), Some (longitude geo)), w1))"

definition old_image_path :: "location \<Rightarrow> string option" where
  \<comment> \<open>\<open>oldImagePath\<close> once the existing image is looked at: set if it is a MinIO path\<close>
  "old_image_path existingLocation =
     (if \<not> falsy (loc_image existingLocation) \<and> isMinioPath (the (loc_image existingLocation))
      then Some (extractMinioPath (the (loc_image existingLocation)))
      else None)"

definition update_image ::
  "env \<Rightarrow> bool option \<Rightarrow> multer_file option \<Rightarrow> location \<Rightarrow> world
     \<Rightarrow> (exn + string option \<times> string option \<times> string option) \<times> world" where
  \<comment> \<open>\<open>imageUrl\<close>, \<open>uploadedFilePath\<close> and \<open>oldImagePath\<close> after the \<open>if (imageFile) ... else if ...\<close>\<close>
  "update_image E keepImage imageFile existingLocation w =
     (case imageFile of
        Some f \<Rightarrow>
          (case uploadFile E imageFile LOCATIONS w of
             (Inl error, w1) \<Rightarrow> (Inl error, w1)
           | (Inr path, w1) \<Rightarrow>
               (Inr (Some (getFileUrl (cfg E) path), Some path,
                     old_image_path existingLocation), w1))
      | None \<Rightarrow>
          if keepImage = Some False \<and> \<not> falsy (loc_image existingLocation)
          then (Inr (Some [], None, old_image_path existingLocation), w)
          else (Inr (None, None, None), w))"

definition updateData ::
  "UpdateLocationDto \<Rightarrow> real option \<times> real option \<Rightarrow> string option \<Rightarrow> update_data" where
  \<comment> \<open>\<open>{...rest, ...coordinates}\<close>, then \<open>image\<close> overwritten unless \<open>imageUrl\<close> is undefined\<close>
  "updateData dto coordinates imageUrl =
     \<lparr>ud_name = u_name dto, ud_description = u_description dto,
      ud_latitude = fst coordinates, ud_longitude = snd coordinates,
      ud_image = (case imageUrl of None \<Rightarrow> u_image dto | Some url \<Rightarrow> Some url)\<rparr>"

definition update_try ::
  "env \<Rightarrow> string \<Rightarrow> UpdateLocationDto \<Rightarrow> multer_file option \<Rightarrow> location \<Rightarrow> world
     \<Rightarrow> ((exn + location) \<times> string option) \<times> world" where
  "update_try E ident dto imageFile existingLocation w =
     (case update_coordinates E (u_address dto) w of
        (Inl error, w1) \<Rightarrow> ((Inl error, None), w1)
      | (Inr coordinates, w1) \<Rightarrow>
          (case update_image E (u_keepImage dto) imageFile existingLocation w1 of
             (Inl error, w2) \<Rightarrow> ((Inl error, None), w2)
           | (Inr (imageUrl, uploadedFilePath, oldImagePath), w2) \<Rightarrow>
               (case location_update E ident (updateData dto coordinates imageUrl) w2 of
                  (Inl error, w3) \<Rightarrow> ((Inl error, uploadedFilePath), w3)
                | (Inr location, w3) \<Rightarrow>
                    ((Inr location, uploadedFilePath), deleteFile_caught E oldImagePath w3))))"

definition update ::
  "env \<Rightarrow> string \<Rightarrow> UpdateLocationDto \<Rightarrow> multer_file option \<Rightarrow> world
     \<Rightarrow> (exn + location) \<times> world" where
  "update E ident dto imageFile w =
     (case findOne E ident w of
        (Inl error, w0) \<Rightarrow> (Inl error, w0)
      | (Inr existingLocation, w0) \<Rightarrow>
          (case update_try E ident dto imageFile existingLocation w0 of
             ((Inr location, uploadedFilePath), w1) \<Rightarrow> (Inr location, w1)
           | ((Inl error, uploadedFilePath), w1) \<Rightarrow>
               (Inl error, deleteFile_caught E uploadedFilePath w1)))"

section \<open>Concrete inputs\<close>

text \<open>A store on \<open>localhost:9000\<close>, a geocoder that knows one place, and no failures.\<close>

definition cfg0 :: config where
  "cfg0 = \<lparr>MINIO_ENDPOINT = Some ''localhost'', MINIO_PORT = Some ''9000'',
           MINIO_USE_SSL = Some ''false''\<rparr>"

definition env0 :: env where
  "env0 = \<lparr>cfg = cfg0,
           fault = (\<lambda>n ev. None),
           features = (\<lambda>n q. Some [\<lparr>center = (2, 48), place_name = ''Paris''\<rparr>]),
           randomUUID = (\<lambda>n. ''uuid''),
           extname = (\<lambda>s. if s = ''photo.jpg'' then ''.jpg'' else []),
           new_id = (\<lambda>n. ''loc1'')\<rparr>"

text \<open>The same, but every write to the database fails, and so does every removal of an
  object.\<close>

definition env_failing :: env where
  "env_failing = env0\<lparr>fault := (\<lambda>n ev. case ev of
       DbCreate d \<Rightarrow> Some (Error ''db down'')
     | DbUpdate i d \<Rightarrow> Some (Error ''db down'')
     | RemoveObject b k \<Rightarrow> Some (Error ''store down'')
     | _ \<Rightarrow> None)\<rparr>"

text \<open>Only the removal of an object fails.\<close>

definition env_store_down :: env where
  "env_store_down = env0\<lparr>fault := (\<lambda>n ev. case ev of
       RemoveObject b k \<Rightarrow> Some (Error ''store down'')
     | _ \<Rightarrow> None)\<rparr>"

text \<open>The geocoder finds nothing.\<close>

definition env_nowhere :: env where
  "env_nowhere = env0\<lparr>features := (\<lambda>n q. Some [])\<rparr>"

definition world0 :: world where
  "world0 = \<lparr>trace = [], objects = Map.empty, db = Map.empty\<rparr>"

definition photo :: multer_file where
  "photo = \<lparr>originalname = ''photo.jpg'', mimetype = ''image/jpeg'', fsize = 1024, buffer = ''abc''\<rparr>"

definition tower :: CreateLocationDto where
  "tower = \<lparr>c_name = ''Eiffel Tower'', c_description = None, c_address = ''Paris'',
            c_image = Some ''https://example.com/image.jpg''\<rparr>"

text \<open>A stored location whose image is an object of the store, and the same location
  without image.\<close>

definition row0 :: location where
  "row0 = \<lparr>loc_id = ''loc1'', loc_name = ''Eiffel Tower'', loc_description = None,
           loc_latitude = 48, loc_longitude = 2,
           loc_image = Some ''http://localhost:9000/locations/old.jpg'', loc_userId = ''u1''\<rparr>"

definition world_stored :: world where
  "world_stored = \<lparr>trace = [],
      objects = [(''locations'', ''old.jpg'') \<mapsto> photo],
      db = [''loc1'' \<mapsto> row0]\<rparr>"

definition world_bare :: world where
  "world_bare = \<lparr>trace = [], objects = Map.empty,
      db = [''loc1'' \<mapsto> row0\<lparr>loc_image := None\<rparr>]\<rparr>"

definition no_change :: UpdateLocationDto where
  "no_change = \<lparr>u_name = None, u_description = None, u_address = None, u_image = None,
                u_keepImage = None\<rparr>"

definition clear_image :: UpdateLocationDto where
  "clear_image = no_change\<lparr>u_keepImage := Some False\<rparr>"

definition clear_and_link :: UpdateLocationDto where
  "clear_and_link = no_change\<lparr>u_keepImage := Some False,
                               u_image := Some ''https://example.com/image.jpg''\<rparr>"

text \<open>A file whose name ends with a space, stored under the key that \<open>uploadFile\<close> gives
  it, \<open>uuid.jpg\<close> followed by a space, and the location that holds the public URL of that
  object.\<close>

definition world_spaced :: world where
  "world_spaced = \<lparr>trace = [],
      objects = [(''locations'', ''uuid.jpg '') \<mapsto> photo\<lparr>originalname := ''photo.jpg ''\<rparr>],
      db = [''loc1'' \<mapsto>
              row0\<lparr>loc_image := Some (BuildURL cfg0 ''locations'' ''uuid.jpg '')\<rparr>]\<rparr>"

section \<open>Facts about the string operations\<close>

lemma startsWith_append [simp]: "startsWith (p @ r) p"
  by (induction p) auto

lemma startsWith_decomp: "startsWith s p \<Longrightarrow> \<exists>t. s = p @ t"
  by (induction s p rule: startsWith.induct) auto

lemma startsWith_drop: "startsWith s p \<Longrightarrow> s = p @ drop (length p) s"
  using startsWith_decomp by fastforce

lemma split_from_nonempty [simp]: "split_from sep cur s \<noteq> []"
  by (induction sep cur s rule: split_from.induct) auto

lemma join_split_from: "sep \<noteq> [] \<Longrightarrow> join sep (split_from sep cur s) = cur @ s"
proof (induction sep cur s rule: split_from.induct)
  case (1 sep cur)
  then show ?case by simp
next
  case (2 sep cur c cs)
  show ?case
  proof (cases "startsWith (c # cs) sep")
    case True
    then have eq: "c # cs = sep @ drop (length sep) (c # cs)"
      by (rule startsWith_drop)
    obtain p ps where ps: "split_from sep [] (drop (length sep) (c # cs)) = p # ps"
      by (cases "split_from sep [] (drop (length sep) (c # cs))") auto
    have "join sep (p # ps) = drop (length sep) (c # cs)"
      using 2 True ps by simp
    then have "join sep (cur # p # ps) = cur @ sep @ drop (length sep) (c # cs)"
      by simp
    with eq ps True 2(3) show ?thesis by simp
  next
    case False
    with 2 show ?thesis by simp
  qed
qed

lemma split_from_no_sep:
  "\<not> includes_js s sep \<Longrightarrow> split_from sep cur s = [cur @ s]"
  by (induction s arbitrary: cur) auto

lemma includes_js_startsWith: "startsWith s p \<Longrightarrow> includes_js s p"
  by (cases s; cases p) simp_all

lemma includes_js_append: "includes_js (a @ p @ b) p"
proof (induction a)
  case Nil
  show ?case using includes_js_startsWith [OF startsWith_append] by simp
next
  case (Cons x a)
  then show ?case by simp
qed

lemma split_from_first:
  assumes "sep \<noteq> []" and "clear_before sep pre (sep @ key)" and "\<not> includes_js key sep"
  shows "split_from sep cur (pre @ sep @ key) = [cur @ pre, key]"
  using assms(2)
proof (induction pre arbitrary: cur)
  case Nil
  obtain c cs where sk: "sep @ key = c # cs"
    using assms(1) by (cases sep) auto
  have "startsWith (c # cs) sep"
    using startsWith_append [of sep key] sk by simp
  moreover have "drop (length sep) (c # cs) = key"
    using sk [symmetric] by simp
  ultimately have "split_from sep cur (c # cs) = cur # split_from sep [] key"
    using assms(1) by simp
  then show ?case
    using sk split_from_no_sep [OF assms(3), of "[]"] by simp
next
  case (Cons p ps)
  then show ?case by simp
qed

lemma clear_before_append:
  "clear_before sep (a @ b) rest \<longleftrightarrow> clear_before sep a (b @ rest) \<and> clear_before sep b rest"
  by (induction a) auto

lemma clear_before_nochar:
  "c \<notin> set a \<Longrightarrow> clear_before (c # ps) a rest"
  by (induction a) auto

lemma takeWhile_upto: "x \<notin> set xs \<Longrightarrow> takeWhile (\<lambda>c. c \<noteq> x) (xs @ x # r) = xs"
  by (induction xs) auto

lemma host_is_locations:
  assumes "CHR ''/'' \<notin> set host" and "startsWith (host @ ''/'' @ r) ''locations/''"
  shows "host = ''locations''"
proof -
  let ?P = "\<lambda>c. c \<noteq> CHR ''/''"
  obtain t where "host @ ''/'' @ r = ''locations/'' @ t"
    using startsWith_decomp [OF assms(2)] by blast
  then have "takeWhile ?P (host @ ''/'' @ r) = takeWhile ?P (''locations/'' @ t)"
    by simp
  moreover have "takeWhile ?P (host @ ''/'' @ r) = host"
    using assms(1) by (simp add: takeWhile_upto)
  ultimately show ?thesis by simp
qed

lemma dropWhile_append_stop:
  "ys \<noteq> [] \<Longrightarrow> \<not> P (hd ys) \<Longrightarrow> dropWhile P (xs @ ys) = dropWhile P xs @ ys"
  by (induction xs) (auto simp: neq_Nil_conv)

lemma trim_prefix:
  assumes "p \<noteq> []" and "\<not> is_ws (hd p)" and "\<not> is_ws (last p)"
  shows "trim (p @ key) = p @ trimEnd key"
proof -
  have 1: "dropWhile is_ws (p @ key) = p @ key"
    using assms(1,2) by (cases p) auto
  have "rev p \<noteq> []" and "\<not> is_ws (hd (rev p))"
    using assms(1,3) by (simp_all add: hd_rev)
  then have "dropWhile is_ws (rev key @ rev p) = dropWhile is_ws (rev key) @ rev p"
    by (rule dropWhile_append_stop)
  then show ?thesis
    by (simp add: trim_def trimEnd_def 1)
qed

lemma trimEnd_id: "key \<noteq> [] \<Longrightarrow> \<not> is_ws (last key) \<Longrightarrow> trimEnd key = key"
  by (cases key rule: rev_cases) (auto simp: trimEnd_def)

lemma split_from_bucket:
  "CHR ''/'' \<notin> set b \<Longrightarrow>
   split_from ''/'' cur (b @ CHR ''/'' # k) = (cur @ b) # split_from ''/'' [] k"
  by (induction b arbitrary: cur) auto

lemma extract_bucket_path:
  assumes "bucket \<in> set validBuckets"
  shows "extractBucketAndFileName (bucket @ ''/'' @ key) = (Some bucket, Some (trimEnd key))"
proof -
  define p where "p = bucket @ ''/''"
  have b: "bucket = ''locations''"
    using assms by (simp add: validBuckets_def LOCATIONS_def)
  have "p \<noteq> []" and "\<not> is_ws (hd p)" and "\<not> is_ws (last p)"
    by (simp_all add: p_def b is_ws_def)
  then have t: "trim (p @ key) = p @ trimEnd key"
    by (rule trim_prefix)
  have "CHR ''/'' \<notin> set bucket"
    by (simp add: b)
  then have s: "split_from ''/'' [] (p @ trimEnd key) = bucket # split_from ''/'' [] (trimEnd key)"
    using split_from_bucket [of bucket "[]" "trimEnd key"] by (simp add: p_def)
  obtain q qs where qs: "split_from ''/'' [] (trimEnd key) = q # qs"
    by (cases "split_from ''/'' [] (trimEnd key)") auto
  have j: "join ''/'' (q # qs) = trimEnd key"
    using join_split_from [of "''/''" "[]" "trimEnd key"] qs by simp
  have parts: "split (trim (p @ key)) ''/'' = bucket # q # qs"
    by (simp add: split_def t s qs)
  have "extractBucketAndFileName (p @ key) = (Some bucket, Some (trimEnd key))"
    using assms j \<open>p \<noteq> []\<close>
    by (simp add: extractBucketAndFileName_def parts Let_def del: join.simps)
  then show ?thesis
    by (simp add: p_def)
qed

lemma getFileUrl_locations:
  "trimEnd key \<noteq> [] \<Longrightarrow>
   getFileUrl conf (''locations'' @ ''/'' @ key) =
     (if MINIO_USE_SSL conf = Some ''true'' then ''https'' else ''http'') @ ''://'' @
     template (MINIO_ENDPOINT conf) @ portSuffix conf @ ''/locations/'' @ trimEnd key"
proof -
  assume k: "trimEnd key \<noteq> []"
  define path where "path = ''locations'' @ ''/'' @ key"
  have e: "extractBucketAndFileName path = (Some ''locations'', Some (trimEnd key))"
    unfolding path_def by (rule extract_bucket_path) (simp add: validBuckets_def LOCATIONS_def)
  have "path \<noteq> []"
    by (simp add: path_def)
  then have "getFileUrl conf path =
     (if MINIO_USE_SSL conf = Some ''true'' then ''https'' else ''http'') @ ''://'' @
     template (MINIO_ENDPOINT conf) @ portSuffix conf @ ''/locations/'' @ trimEnd key"
    using k by (simp add: getFileUrl_def e falsy_def template_def Let_def)
  then show ?thesis
    unfolding path_def .
qed

lemma clear_before_origin:
  assumes "CHR ''/'' \<notin> set host" and "host \<noteq> ''locations''"
    and "proto = ''http'' \<or> proto = ''https''"
  shows "clear_before ''/locations/'' (proto @ ''://'' @ host) (''/locations/'' @ key)"
proof -
  have 1: "clear_before ''/locations/'' proto ((''://'' @ host) @ ''/locations/'' @ key)"
    using assms(3) by (elim disjE) simp_all
  have "\<not> startsWith (host @ ''/'' @ (''locations/'' @ key)) ''locations/''"
    using host_is_locations assms(1,2) by blast
  then have 2: "clear_before ''/locations/'' ''://'' (host @ ''/locations/'' @ key)"
    by simp
  have 3: "clear_before ''/locations/'' host (''/locations/'' @ key)"
    using assms(1) by (rule clear_before_nochar)
  show ?thesis
    using 1 2 3 by (simp only: clear_before_append append_assoc)
qed

lemma extractMinioPath_url:
  assumes "clear_before ''/locations/'' origin (''/locations/'' @ key)"
    and "\<not> includes_js key ''/locations/''"
  shows "extractMinioPath (origin @ ''/locations/'' @ key) = ''locations/'' @ key"
proof -
  have "split_from ''/locations/'' [] (origin @ ''/locations/'' @ key) = [origin, key]"
    using split_from_first [OF _ assms, of "[]"] by simp
  then show ?thesis
    using includes_js_append [of origin "''/locations/''" key]
    by (simp add: extractMinioPath_def split_def)
qed

lemma isMinioPath_url: "isMinioPath (origin @ ''/locations/'' @ key)"
  using includes_js_append [of origin "''/locations/''" key]
  by (simp add: isMinioPath_def)

section \<open>What each call records\<close>

lemma calls_emit:
  "calls (emit ev w) = calls w @ (if is_service_call ev then [ev] else [])"
  by (simp add: calls_def emit_def)

lemma emit_frame [simp]:
  "objects (emit ev w) = objects w" "db (emit ev w) = db w"
  by (simp_all add: emit_def)

lemma calls_frame [simp]:
  "calls (w\<lparr>objects := ob\<rparr>) = calls w" "calls (w\<lparr>db := d\<rparr>) = calls w"
  by (simp_all add: calls_def)

lemma forwardGeocode_frame:
  "calls (snd (forwardGeocode E q w)) = calls w"
  "objects (snd (forwardGeocode E q w)) = objects w"
  "db (snd (forwardGeocode E q w)) = db w"
  by (simp_all add: forwardGeocode_def Let_def calls_emit is_service_call_def split: option.splits)

lemma putObject_calls: "calls (snd (putObject E b k f w)) = calls w"
  by (simp add: putObject_def Let_def calls_emit is_service_call_def split: option.splits)

lemma statObject_frame:
  "calls (snd (statObject E b k w)) = calls w"
  "objects (snd (statObject E b k w)) = objects w"
  by (simp_all add: statObject_def Let_def calls_emit is_service_call_def split: option.splits)

lemma removeObject_calls: "calls (snd (removeObject E b k w)) = calls w"
  by (simp add: removeObject_def Let_def calls_emit is_service_call_def split: option.splits)

lemma fileExists_frame:
  "calls (snd (fileExists E b k w)) = calls w"
  "objects (snd (fileExists E b k w)) = objects w"
  by (simp_all add: fileExists_def case_prod_beta statObject_frame split: sum.splits)

lemma geocodeAddress_frame:
  "calls (snd (geocodeAddress E a w)) = calls w @ [GeocodeCall a]"
  "objects (snd (geocodeAddress E a w)) = objects w"
  "db (snd (geocodeAddress E a w)) = db w"
  by (simp_all add: geocodeAddress_def Let_def case_prod_beta forwardGeocode_frame calls_emit
      is_service_call_def split: sum.splits option.splits list.splits)

lemma uploadFile_calls:
  "calls (snd (uploadFile E file b w)) = calls w @ [UploadCall file b]"
  by (simp add: uploadFile_def Let_def case_prod_beta putObject_calls calls_emit
      is_service_call_def split: sum.splits option.splits)

lemma uploadFile_path: "uploadFile E file b w = (Inr path, w') \<Longrightarrow> path \<noteq> []"
  by (auto simp: uploadFile_def Let_def split: prod.splits sum.splits option.splits)

lemma deleteFile_calls:
  "calls (snd (deleteFile E path w)) = calls w @ [DeleteCall path]"
  by (simp add: deleteFile_def Let_def case_prod_beta removeObject_calls fileExists_frame
      calls_emit is_service_call_def split: sum.splits)

lemma deleteFile_caught_calls:
  "calls (deleteFile_caught E path w) =
     calls w @ (if falsy path then [] else [DeleteCall (the path)])"
  by (simp add: deleteFile_caught_def deleteFile_calls)

lemma location_create_calls:
  "calls (snd (location_create E d w)) = calls w @ [DbCreate d]"
  by (simp add: location_create_def Let_def calls_emit is_service_call_def split: option.splits)

lemma location_update_calls:
  "calls (snd (location_update E ident d w)) = calls w @ [DbUpdate ident d]"
  by (simp add: location_update_def Let_def calls_emit is_service_call_def split: option.splits)

lemma findOne_frame:
  "calls (snd (findOne E ident w)) = calls w @ [FindUnique ident]"
  "db (snd (findOne E ident w)) = db w"
  by (auto simp: findOne_def location_findUnique_def Let_def calls_emit is_service_call_def
      split: option.splits)

lemma findOne_row: "findOne E ident w = (Inr row, w') \<Longrightarrow> db w ident = Some row"
  by (auto simp: findOne_def location_findUnique_def Let_def split: option.splits)

lemma update_coordinates_frame:
  "calls (snd (update_coordinates E address w)) =
     calls w @ (if falsy address then [] else [GeocodeCall (the address)])"
  "db (snd (update_coordinates E address w)) = db w"
  by (simp_all add: update_coordinates_def case_prod_beta geocodeAddress_frame split: sum.splits)

section \<open>The geocoding client\<close>

lemma trim_blank:
  assumes "\<forall>c \<in> set s. is_ws c"
  shows "trim s = []"
proof -
  have blank: "dropWhile is_ws s = []"
    using assms by (induction s) auto
  show ?thesis
    unfolding trim_def blank by simp
qed

lemma geocodeAddress_unchecked_trace:
  "trace (snd (geocodeAddress_unchecked E address w))
     = trace w @ [GeocodeCall address, ForwardGeocode address]"
  by (simp add: geocodeAddress_unchecked_def forwardGeocode_def Let_def emit_def
      split: option.splits list.splits)

text \<open>
  C8, as stated, fails: the source holds two \<open>MapboxService\<close> classes, and the
  \<open>geocodeAddress\<close> of the second has no check of the address. There an address of one
  space is looked up and, if the service answers with a place, geocoded; the empty address
  is looked up too, and when nothing is found the error is the plain "Geocoding failed:
  Address not found".
\<close>

theorem geocodeAddress_blank_counterexample:
  "fst (geocodeAddress_unchecked env0 [CHR 0x20] world0)
     = Inr \<lparr>latitude = 48, longitude = 2, formattedAddress = None\<rparr>
   \<and> trace (snd (geocodeAddress_unchecked env0 [CHR 0x20] world0))
     = [GeocodeCall [CHR 0x20], ForwardGeocode [CHR 0x20]]
   \<and> fst (geocodeAddress_unchecked env_nowhere [] world0)
     = Inl (Error ''Geocoding failed: Address not found'')
   \<and> trace (snd (geocodeAddress_unchecked env_nowhere [] world0))
     = [GeocodeCall [], ForwardGeocode []]"
  by (simp add: geocodeAddress_unchecked_def forwardGeocode_def Let_def emit_def
      env_nowhere_def env0_def world0_def)

text \<open>
  C8, amended. For an address that is empty or made of white space only: the
  \<open>geocodeAddress\<close> that checks its argument refuses it with the \<open>BadRequestException\<close>
  "Address cannot be empty" (the specification's \<open>InvalidInput\<close>), and the only call
  recorded is the call of \<open>geocodeAddress\<close> itself, so the upstream lookup is not made; the
  \<open>geocodeAddress\<close> of the second \<open>MapboxService\<close> makes the lookup, with the address as it
  is.
\<close>

theorem geocodeAddress_blank:
  assumes "\<forall>c \<in> set address. is_ws c"
  shows "fst (geocodeAddress E address w) = Inl (BadRequestException ''Address cannot be empty'')
       \<and> trace (snd (geocodeAddress E address w)) = trace w @ [GeocodeCall address]
       \<and> trace (snd (geocodeAddress_unchecked E address w))
           = trace w @ [GeocodeCall address, ForwardGeocode address]"
  using trim_blank [OF assms]
  by (simp add: geocodeAddress_def Let_def emit_def geocodeAddress_unchecked_trace)

theorem geocodeAddress_blank_witness:
  "fst (geocodeAddress env0 [CHR 0x20, CHR 0x09] world0)
     = Inl (BadRequestException ''Address cannot be empty'')
   \<and> trace (snd (geocodeAddress env0 [CHR 0x20, CHR 0x09] world0))
     = trace world0 @ [GeocodeCall [CHR 0x20, CHR 0x09]]
   \<and> trace (snd (geocodeAddress_unchecked env0 [CHR 0x20, CHR 0x09] world0))
     = trace world0 @ [GeocodeCall [CHR 0x20, CHR 0x09], ForwardGeocode [CHR 0x20, CHR 0x09]]"
  by (rule geocodeAddress_blank) (simp add: is_ws_def)

section \<open>The object store: limits\<close>

text \<open>
  C7. A file of exactly 12MB passes the size check (and is stored, if its type is allowed
  and \<open>putObject\<close> does not fail); a file of more than 12MB is refused with "Arquivo
  maior que 12MB" (\<open>TooLarge\<close>), a file of size zero with "Arquivo vazio" (\<open>Empty\<close>); in
  both cases nothing is stored and \<open>putObject\<close> is not called.
\<close>

theorem uploadFile_size_boundary:
  "(fsize f = 12582912 \<longrightarrow>
      validateFile f \<noteq> Inl (BadRequestException ''Arquivo maior que 12MB'')
    \<and> validateFile f \<noteq> Inl (BadRequestException ''Arquivo vazio'')
    \<and> (mimetype f \<in> set allowedTypes \<longrightarrow> validateFile f = Inr ())
    \<and> (mimetype f \<in> set allowedTypes
         \<and> fault E (Suc (length (trace w)))
              (PutObject b (randomUUID E (Suc (length (trace w))) @ extname E (originalname f))) = None
       \<longrightarrow> fst (uploadFile E (Some f) b w)
             = Inr (b @ ''/'' @ randomUUID E (Suc (length (trace w))) @ extname E (originalname f))
         \<and> objects (snd (uploadFile E (Some f) b w))
             (b, randomUUID E (Suc (length (trace w))) @ extname E (originalname f)) = Some f))
   \<and> (12582912 < fsize f \<longrightarrow>
        fst (uploadFile E (Some f) b w)
          = Inl (BadRequestException ''Erro no upload: Arquivo maior que 12MB'')
      \<and> objects (snd (uploadFile E (Some f) b w)) = objects w
      \<and> trace (snd (uploadFile E (Some f) b w)) = trace w @ [UploadCall (Some f) b])
   \<and> (fsize f = 0 \<longrightarrow>
        fst (uploadFile E (Some f) b w) = Inl (BadRequestException ''Erro no upload: Arquivo vazio'')
      \<and> objects (snd (uploadFile E (Some f) b w)) = objects w
      \<and> trace (snd (uploadFile E (Some f) b w)) = trace w @ [UploadCall (Some f) b])"
proof (intro conjI impI)
  assume "fsize f = 12582912"
  then show "validateFile f \<noteq> Inl (BadRequestException ''Arquivo maior que 12MB'')"
    and "validateFile f \<noteq> Inl (BadRequestException ''Arquivo vazio'')"
    by (simp_all add: validateFile_def maxSize_def)
next
  assume "fsize f = 12582912" and "mimetype f \<in> set allowedTypes"
  then show "validateFile f = Inr ()"
    by (simp add: validateFile_def maxSize_def)
next
  let ?k = "randomUUID E (Suc (length (trace w))) @ extname E (originalname f)"
  assume "fsize f = 12582912"
    and "mimetype f \<in> set allowedTypes \<and> fault E (Suc (length (trace w))) (PutObject b ?k) = None"
  then have v: "validateFile f = Inr ()"
    and p: "fault E (Suc (length (trace w))) (PutObject b ?k) = None"
    by (simp_all add: validateFile_def maxSize_def)
  show "fst (uploadFile E (Some f) b w) = Inr (b @ ''/'' @ ?k)"
    using p by (simp add: uploadFile_def v putObject_def Let_def emit_def)
  show "objects (snd (uploadFile E (Some f) b w)) (b, ?k) = Some f"
    using p by (simp add: uploadFile_def v putObject_def Let_def emit_def)
next
  assume "12582912 < fsize f"
  then have v: "validateFile f = Inl (BadRequestException ''Arquivo maior que 12MB'')"
    by (simp add: validateFile_def maxSize_def)
  show "fst (uploadFile E (Some f) b w)
          = Inl (BadRequestException ''Erro no upload: Arquivo maior que 12MB'')"
    and "objects (snd (uploadFile E (Some f) b w)) = objects w"
    and "trace (snd (uploadFile E (Some f) b w)) = trace w @ [UploadCall (Some f) b]"
    by (simp_all add: uploadFile_def v Let_def emit_def)
next
  assume "fsize f = 0"
  then have v: "validateFile f = Inl (BadRequestException ''Arquivo vazio'')"
    by (simp add: validateFile_def maxSize_def)
  show "fst (uploadFile E (Some f) b w) = Inl (BadRequestException ''Erro no upload: Arquivo vazio'')"
    and "objects (snd (uploadFile E (Some f) b w)) = objects w"
    and "trace (snd (uploadFile E (Some f) b w)) = trace w @ [UploadCall (Some f) b]"
    by (simp_all add: uploadFile_def v Let_def emit_def)
qed

theorem uploadFile_size_boundary_witness:
  "validateFile (photo\<lparr>fsize := 12582912\<rparr>) = Inr ()
   \<and> fst (uploadFile env0 (Some (photo\<lparr>fsize := 12582912\<rparr>)) LOCATIONS world0)
       = Inr ''locations/uuid.jpg''
   \<and> objects (snd (uploadFile env0 (Some (photo\<lparr>fsize := 12582912\<rparr>)) LOCATIONS world0))
       (''locations'', ''uuid.jpg'') = Some (photo\<lparr>fsize := 12582912\<rparr>)
   \<and> fst (uploadFile env0 (Some (photo\<lparr>fsize := 12582913\<rparr>)) LOCATIONS world0)
       = Inl (BadRequestException ''Erro no upload: Arquivo maior que 12MB'')
   \<and> objects (snd (uploadFile env0 (Some (photo\<lparr>fsize := 12582913\<rparr>)) LOCATIONS world0)) = Map.empty
   \<and> fst (uploadFile env0 (Some (photo\<lparr>fsize := 0\<rparr>)) LOCATIONS world0)
       = Inl (BadRequestException ''Erro no upload: Arquivo vazio'')"
  using uploadFile_size_boundary [of "photo\<lparr>fsize := 12582912\<rparr>" env0 world0 LOCATIONS]
    uploadFile_size_boundary [of "photo\<lparr>fsize := 12582913\<rparr>" env0 world0 LOCATIONS]
    uploadFile_size_boundary [of "photo\<lparr>fsize := 0\<rparr>" env0 world0 LOCATIONS]
  by (simp add: photo_def env0_def world0_def allowedTypes_def LOCATIONS_def)

section \<open>The object store: addresses\<close>

lemma extractMinioPath_BuildURL:
  assumes "bucket \<in> set validBuckets"
    and "key \<noteq> []" and "\<not> is_ws (last key)" and "\<not> includes_js key ''/locations/''"
    and "CHR ''/'' \<notin> set (template (MINIO_ENDPOINT conf) @ portSuffix conf)"
    and "template (MINIO_ENDPOINT conf) @ portSuffix conf \<noteq> ''locations''"
  shows "isMinioPath (BuildURL conf bucket key)
       \<and> extractMinioPath (BuildURL conf bucket key) = bucket @ ''/'' @ key"
proof -
  let ?proto = "if MINIO_USE_SSL conf = Some ''true'' then ''https'' else ''http''"
  let ?host = "template (MINIO_ENDPOINT conf) @ portSuffix conf"
  have b: "bucket = ''locations''"
    using assms(1) by (simp add: validBuckets_def LOCATIONS_def)
  have t: "trimEnd key = key"
    using assms(2,3) by (rule trimEnd_id)
  have url: "BuildURL conf bucket key = (?proto @ ''://'' @ ?host) @ ''/locations/'' @ key"
    using getFileUrl_locations [of key conf] assms(2) t b by (simp add: BuildURL_def)
  have cl: "clear_before ''/locations/'' (?proto @ ''://'' @ ?host) (''/locations/'' @ key)"
    using assms(5,6) by (intro clear_before_origin) auto
  have "extractMinioPath (BuildURL conf bucket key) = ''locations/'' @ key"
    unfolding url using cl assms(4) by (rule extractMinioPath_url)
  then have p: "extractMinioPath (BuildURL conf bucket key) = bucket @ ''/'' @ key"
    by (simp add: b)
  have m: "isMinioPath (BuildURL conf bucket key)"
    unfolding url by (rule isMinioPath_url)
  show ?thesis
    using m p by (intro conjI)
qed

text \<open>
  C4, as stated, fails. The key \<open>a/locations/b\<close> is one that \<open>extractBucketAndFileName\<close>
  accepts and returns whole, yet the URL built from it is read back as the key \<open>a\<close>; and
  a key with a trailing space, which an upload of a file whose name ends with a space
  produces, is read back without the space.
\<close>

theorem ParseURL_BuildURL_counterexample:
  "''locations'' \<in> set validBuckets
   \<and> extractBucketAndFileName ''locations/a/locations/b'' = (Some ''locations'', Some ''a/locations/b'')
   \<and> BuildURL cfg0 ''locations'' ''a/locations/b'' = ''http://localhost:9000/locations/a/locations/b''
   \<and> ParseURL (BuildURL cfg0 ''locations'' ''a/locations/b'') = Some (''locations'', ''a'')
   \<and> ParseURL (BuildURL cfg0 ''locations'' ''uuid.jpg '') = Some (''locations'', ''uuid.jpg'')"
  by (simp add: validBuckets_def LOCATIONS_def extractBucketAndFileName_def BuildURL_def
      ParseURL_def getFileUrl_def isMinioPath_def extractMinioPath_def portSuffix_def cfg0_def
      split_def trim_def is_ws_def falsy_def template_def Let_def)

text \<open>
  C4, amended. For the known bucket and a key that is not empty, does not end with white
  space and does not contain \<open>/locations/\<close>, and a configuration whose endpoint and port
  hold no \<open>/\<close> and do not spell the host \<open>locations\<close>, parsing the URL built from the
  pair gives the pair back.
\<close>

theorem ParseURL_BuildURL:
  assumes "bucket \<in> set validBuckets"
    and "key \<noteq> []" and "\<not> is_ws (last key)" and "\<not> includes_js key ''/locations/''"
    and "CHR ''/'' \<notin> set (template (MINIO_ENDPOINT conf) @ portSuffix conf)"
    and "template (MINIO_ENDPOINT conf) @ portSuffix conf \<noteq> ''locations''"
  shows "ParseURL (BuildURL conf bucket key) = Some (bucket, key)"
proof -
  have b: "bucket \<noteq> []"
    using assms(1) by (auto simp: validBuckets_def LOCATIONS_def)
  have t: "trimEnd key = key"
    using assms(2,3) by (rule trimEnd_id)
  have m: "isMinioPath (BuildURL conf bucket key)"
    and p: "extractMinioPath (BuildURL conf bucket key) = bucket @ ''/'' @ key"
    using extractMinioPath_BuildURL [OF assms] by simp_all
  have e: "extractBucketAndFileName (extractMinioPath (BuildURL conf bucket key))
             = (Some bucket, Some key)"
    unfolding p using extract_bucket_path [OF assms(1), of key] t by simp
  show ?thesis
    using assms(2) b by (simp add: ParseURL_def e m falsy_def template_def)
qed

theorem ParseURL_BuildURL_witness:
  "ParseURL (BuildURL cfg0 ''locations'' ''uuid.jpg'') = Some (''locations'', ''uuid.jpg'')"
  by (rule ParseURL_BuildURL)
    (simp_all add: validBuckets_def LOCATIONS_def is_ws_def cfg0_def portSuffix_def template_def)

section \<open>The object store: deleting\<close>

lemma deleteFile_frame: "db (snd (deleteFile E path w)) = db w"
  by (simp add: deleteFile_def Let_def case_prod_beta fileExists_def statObject_def
      removeObject_def emit_def split: sum.splits option.splits)

lemma deleteFile_caught_frame: "db (deleteFile_caught E path w) = db w"
  by (simp add: deleteFile_caught_def deleteFile_frame)

text \<open>
  C6, as stated, fails: the key of one space names no object of the empty store, and
  deleting it is an error, since the path is trimmed and a path without a file name is
  refused. So is deleting the empty key, which is what \<open>extractMinioPath\<close> reads in an
  image URL that ends with \<open>/locations/\<close>.
\<close>

theorem deleteFile_missing_counterexample:
  "''locations'' \<in> set validBuckets
   \<and> objects world0 (''locations'', '' '') = None
   \<and> fst (deleteFile env0 (''locations'' @ ''/'' @ '' '') world0)
       = Inl (BadRequestException (''Erro ao deletar: Caminho do arquivo inv'' @ [CHR 0xE1] @ ''lido''))
   \<and> objects world0 (''locations'', []) = None
   \<and> fst (deleteFile env0 (''locations'' @ ''/'' @ []) world0)
       = Inl (BadRequestException (''Erro ao deletar: Caminho do arquivo inv'' @ [CHR 0xE1] @ ''lido''))"
  by (simp add: validBuckets_def LOCATIONS_def world0_def deleteFile_def
      extractBucketAndFileName_def split_def trim_def is_ws_def falsy_def Let_def)

text \<open>
  C6, amended. For a known bucket and a key of which something is left once the white
  space at its end is removed: if the store holds no object under what is left (the name
  that \<open>deleteFile\<close> looks up), the deletion succeeds, whatever the client does, and removes
  nothing.
\<close>

theorem deleteFile_missing:
  assumes "bucket \<in> set validBuckets" and "trimEnd key \<noteq> []"
    and "objects w (bucket, trimEnd key) = None"
  shows "fst (deleteFile E (bucket @ ''/'' @ key) w) = Inr ()
       \<and> objects (snd (deleteFile E (bucket @ ''/'' @ key) w)) = objects w"
proof -
  define path where "path = bucket @ ''/'' @ key"
  have e: "extractBucketAndFileName path = (Some bucket, Some (trimEnd key))"
    unfolding path_def using assms(1) by (rule extract_bucket_path)
  have b: "bucket \<noteq> []"
    using assms(1) by (auto simp: validBuckets_def LOCATIONS_def)
  have p: "path \<noteq> []"
    by (simp add: path_def)
  have s: "fst (statObject E bucket (trimEnd key) w0) \<noteq> Inr x" if "objects w0 = objects w" for w0 x
    using assms(3) that by (simp add: statObject_def Let_def split: option.splits)
  have x: "fst (fileExists E bucket (trimEnd key) (emit (DeleteCall path) w)) = False"
    using s [of "emit (DeleteCall path) w"]
    by (auto simp: fileExists_def case_prod_beta split: sum.splits)
  have "fst (deleteFile E path w) = Inr ()
      \<and> objects (snd (deleteFile E path w)) = objects w"
    using assms(2) b p x
    by (simp add: deleteFile_def Let_def e falsy_def case_prod_beta fileExists_frame)
  then show ?thesis
    by (simp add: path_def)
qed

theorem deleteFile_missing_witness:
  "fst (deleteFile env_failing (''locations'' @ ''/'' @ ''gone.jpg'') world_stored) = Inr ()
   \<and> objects (snd (deleteFile env_failing (''locations'' @ ''/'' @ ''gone.jpg'') world_stored))
       = objects world_stored"
  by (rule deleteFile_missing)
    (simp_all add: validBuckets_def LOCATIONS_def trimEnd_def is_ws_def world_stored_def)

section \<open>Creating a location\<close>

lemma create_image_frame: "db (snd (create_image E dto imageFile w)) = db w"
  by (simp add: create_image_def uploadFile_def putObject_def emit_def Let_def case_prod_beta
      split: option.splits sum.splits)

text \<open>
  C5. When geocoding the address fails, \<open>create\<close> fails with that error; the only call it
  has made is the geocoding one (no upload, no write to the database), and neither the
  store nor the database has changed.
\<close>

theorem create_geocode_failure:
  assumes "fst (geocodeAddress E (c_address dto) w) = Inl error"
  shows "fst (create E dto userId imageFile w) = Inl error
       \<and> calls (snd (create E dto userId imageFile w)) = calls w @ [GeocodeCall (c_address dto)]
       \<and> objects (snd (create E dto userId imageFile w)) = objects w
       \<and> db (snd (create E dto userId imageFile w)) = db w"
  using assms
  by (simp add: create_def case_prod_beta geocodeAddress_frame split: sum.splits)

theorem create_geocode_failure_witness:
  "fst (create env_nowhere tower ''u1'' (Some photo) world0)
     = Inl (BadRequestException ''Address not found: Paris'')
   \<and> calls (snd (create env_nowhere tower ''u1'' (Some photo) world0))
     = calls world0 @ [GeocodeCall (c_address tower)]
   \<and> objects (snd (create env_nowhere tower ''u1'' (Some photo) world0)) = objects world0
   \<and> db (snd (create env_nowhere tower ''u1'' (Some photo) world0)) = db world0"
  by (rule create_geocode_failure)
    (simp add: geocodeAddress_def forwardGeocode_def geocode_catch_def emit_def Let_def
      env_nowhere_def env0_def tower_def world0_def trim_def is_ws_def)

lemma location_create_objects: "objects (snd (location_create E d w)) = objects w"
  by (simp add: location_create_def Let_def split: option.splits)

lemma create_plain_steps:
  assumes "geocodeAddress E (c_address dto) w = (Inr geo, w1)"
    and "uploadFile E (Some f) LOCATIONS w1 = (Inr path, w2)"
    and "location_create E (create_data_of dto geo (Some (getFileUrl (cfg E) path)) userId) w2
           = (r, w3)"
  shows "create_plain E dto userId (Some f) w = (r, w3)"
    and "calls w3 = calls w @ [GeocodeCall (c_address dto), UploadCall (Some f) LOCATIONS,
            DbCreate (create_data_of dto geo (Some (getFileUrl (cfg E) path)) userId)]"
    and "objects w3 = objects w2"
proof -
  let ?d = "create_data_of dto geo (Some (getFileUrl (cfg E) path)) userId"
  show "create_plain E dto userId (Some f) w = (r, w3)"
    by (simp add: create_plain_def create_image_def assms)
  have c1: "calls w1 = calls w @ [GeocodeCall (c_address dto)]"
    using geocodeAddress_frame(1) [of E "c_address dto" w] assms(1) by simp
  have c2: "calls w2 = calls w1 @ [UploadCall (Some f) LOCATIONS]"
    using uploadFile_calls [of E "Some f" LOCATIONS w1] assms(2) by simp
  have c3: "calls w3 = calls w2 @ [DbCreate ?d]"
    using location_create_calls [of E ?d w2] assms(3) by simp
  show "calls w3 = calls w @ [GeocodeCall (c_address dto), UploadCall (Some f) LOCATIONS, DbCreate ?d]"
    by (simp add: c1 c2 c3)
  show "objects w3 = objects w2"
    using location_create_objects [of E ?d w2] assms(3) by simp
qed

text \<open>
  C1, as stated, fails: the \<open>create\<close> of the earlier \<open>LocationsService\<close> has no \<open>try\<close>. When
  the write to the database fails after the upload, it throws that error having called
  no \<open>deleteFile\<close>, and the uploaded object stays in the store.
\<close>

theorem create_rollback_counterexample:
  "fst (create_plain env_failing tower ''u1'' (Some photo) world0) = Inl (Error ''db down'')
   \<and> calls (snd (create_plain env_failing tower ''u1'' (Some photo) world0))
       = [GeocodeCall ''Paris'', UploadCall (Some photo) ''locations'',
          DbCreate (create_data_of tower
            \<lparr>latitude = 48, longitude = 2, formattedAddress = Some ''Paris''\<rparr>
            (Some (getFileUrl cfg0 ''locations/uuid.jpg'')) ''u1'')]
   \<and> deletions (snd (create_plain env_failing tower ''u1'' (Some photo) world0)) = []
   \<and> objects (snd (create_plain env_failing tower ''u1'' (Some photo) world0))
        (''locations'', ''uuid.jpg'') = Some photo"
proof -
  let ?geo = "\<lparr>latitude = 48, longitude = 2, formattedAddress = Some ''Paris''\<rparr>"
  let ?d = "create_data_of tower ?geo (Some (getFileUrl (cfg env_failing) ''locations/uuid.jpg'')) ''u1''"
  define w1 where "w1 = snd (geocodeAddress env_failing (c_address tower) world0)"
  define w2 where "w2 = snd (uploadFile env_failing (Some photo) LOCATIONS w1)"
  define w3 where "w3 = snd (location_create env_failing ?d w2)"
  have g: "geocodeAddress env_failing (c_address tower) world0 = (Inr ?geo, w1)"
    by (simp add: w1_def prod_eq_iff geocodeAddress_def forwardGeocode_def emit_def Let_def
        env_failing_def env0_def tower_def world0_def trim_def is_ws_def)
  have u: "uploadFile env_failing (Some photo) LOCATIONS w1 = (Inr ''locations/uuid.jpg'', w2)"
    by (simp add: w2_def prod_eq_iff uploadFile_def putObject_def validateFile_def maxSize_def
        allowedTypes_def emit_def Let_def env_failing_def env0_def photo_def LOCATIONS_def)
  have o: "objects w2 (''locations'', ''uuid.jpg'') = Some photo"
    by (simp add: w2_def uploadFile_def putObject_def validateFile_def maxSize_def
        allowedTypes_def emit_def Let_def env_failing_def env0_def photo_def LOCATIONS_def)
  have c: "location_create env_failing ?d w2 = (Inl (Error ''db down''), w3)"
    by (simp add: w3_def prod_eq_iff location_create_def emit_def Let_def env_failing_def env0_def)
  have r: "create_plain env_failing tower ''u1'' (Some photo) world0 = (Inl (Error ''db down''), w3)"
    and k: "calls w3 = calls world0 @ [GeocodeCall (c_address tower),
              UploadCall (Some photo) LOCATIONS, DbCreate ?d]"
    and ob: "objects w3 = objects w2"
    using create_plain_steps [OF g u c] by simp_all
  have k0: "calls world0 = []" and a: "c_address tower = ''Paris''"
    and cf: "cfg env_failing = cfg0"
    by (simp_all add: calls_def world0_def tower_def env_failing_def env0_def)
  show ?thesis
    by (simp add: r k k0 a cf ob o deletions_def LOCATIONS_def)
qed

text \<open>
  C1, amended. When the address is geocoded, the file is uploaded to \<open>path\<close> and the
  write to the database then fails with \<open>error\<close>: the \<open>create\<close> that has the \<open>try\<close> fails
  with \<open>error\<close>, and its calls are, in order, the geocoding, one upload, the write, and one
  \<open>deleteFile\<close> of \<open>path\<close>, whose outcome has no part in the result; the \<open>create\<close> of the
  earlier \<open>LocationsService\<close> fails with \<open>error\<close> too, after the same geocoding, upload and
  write, and calls no \<open>deleteFile\<close>.
\<close>

theorem create_rollback:
  assumes "geocodeAddress E (c_address dto) w = (Inr geo, w1)"
    and "uploadFile E (Some f) LOCATIONS w1 = (Inr path, w2)"
    and "location_create E (create_data_of dto geo (Some (getFileUrl (cfg E) path)) userId) w2
           = (Inl error, w3)"
  shows "fst (create E dto userId (Some f) w) = Inl error
       \<and> calls (snd (create E dto userId (Some f) w))
           = calls w @ [GeocodeCall (c_address dto), UploadCall (Some f) LOCATIONS,
                        DbCreate (create_data_of dto geo (Some (getFileUrl (cfg E) path)) userId),
                        DeleteCall path]
       \<and> fst (create_plain E dto userId (Some f) w) = Inl error
       \<and> calls (snd (create_plain E dto userId (Some f) w))
           = calls w @ [GeocodeCall (c_address dto), UploadCall (Some f) LOCATIONS,
                        DbCreate (create_data_of dto geo (Some (getFileUrl (cfg E) path)) userId)]"
proof -
  let ?d = "create_data_of dto geo (Some (getFileUrl (cfg E) path)) userId"
  have c3: "calls w3 = calls w @ [GeocodeCall (c_address dto), UploadCall (Some f) LOCATIONS,
              DbCreate ?d]"
    and pl: "create_plain E dto userId (Some f) w = (Inl error, w3)"
    using create_plain_steps [OF assms] by simp_all
  have p: "\<not> falsy (Some path)"
    using uploadFile_path [OF assms(2)] by (simp add: falsy_def)
  have t: "create_try E dto userId (Some f) geo w1 = ((Inl error, Some path), w3)"
    by (simp add: create_try_def create_image_def assms(2,3))
  have "create E dto userId (Some f) w = (Inl error, deleteFile_caught E (Some path) w3)"
    by (simp add: create_def assms(1) t)
  then show ?thesis
    using p by (simp add: deleteFile_caught_calls c3 pl)
qed

theorem create_rollback_witness:
  "fst (create env_failing tower ''u1'' (Some photo) world0) = Inl (Error ''db down'')
   \<and> calls (snd (create env_failing tower ''u1'' (Some photo) world0))
       = calls world0 @ [GeocodeCall (c_address tower), UploadCall (Some photo) LOCATIONS,
                         DbCreate (create_data_of tower
                           \<lparr>latitude = 48, longitude = 2, formattedAddress = Some ''Paris''\<rparr>
                           (Some (getFileUrl (cfg env_failing) ''locations/uuid.jpg'')) ''u1''),
                         DeleteCall ''locations/uuid.jpg'']
   \<and> fst (create_plain env_failing tower ''u1'' (Some photo) world0) = Inl (Error ''db down'')
   \<and> calls (snd (create_plain env_failing tower ''u1'' (Some photo) world0))
       = calls world0 @ [GeocodeCall (c_address tower), UploadCall (Some photo) LOCATIONS,
                         DbCreate (create_data_of tower
                           \<lparr>latitude = 48, longitude = 2, formattedAddress = Some ''Paris''\<rparr>
                           (Some (getFileUrl (cfg env_failing) ''locations/uuid.jpg'')) ''u1'')]"
proof -
  let ?g = "geocodeAddress env_failing (c_address tower) world0"
  let ?u = "uploadFile env_failing (Some photo) LOCATIONS (snd ?g)"
  let ?d = "create_data_of tower \<lparr>latitude = 48, longitude = 2, formattedAddress = Some ''Paris''\<rparr>
              (Some (getFileUrl (cfg env_failing) ''locations/uuid.jpg'')) ''u1''"
  let ?c = "location_create env_failing ?d (snd ?u)"
  have g: "?g = (Inr \<lparr>latitude = 48, longitude = 2, formattedAddress = Some ''Paris''\<rparr>, snd ?g)"
    by (simp add: prod_eq_iff geocodeAddress_def forwardGeocode_def emit_def Let_def
        env_failing_def env0_def tower_def world0_def trim_def is_ws_def)
  have u: "?u = (Inr ''locations/uuid.jpg'', snd ?u)"
    by (simp add: prod_eq_iff uploadFile_def putObject_def validateFile_def maxSize_def
        allowedTypes_def emit_def Let_def env_failing_def env0_def photo_def LOCATIONS_def)
  have c: "?c = (Inl (Error ''db down''), snd ?c)"
    by (simp add: prod_eq_iff location_create_def emit_def Let_def env_failing_def env0_def)
  show ?thesis
    by (rule create_rollback [OF g u c])
qed

text \<open>
  C9. When \<open>create\<close> is given a file and succeeds, the image of the location it returns,
  which is the row now in the database, is the public URL of the path that the upload
  returned; the \<open>image\<close> of the request has no part in it: with any other value there, the
  outcome is the same.
\<close>

theorem create_file_over_url:
  assumes "create E dto userId (Some f) w = (Inr location, w')"
  shows "(\<exists>path. fst (uploadFile E (Some f) LOCATIONS (snd (geocodeAddress E (c_address dto) w)))
                   = Inr path
               \<and> loc_image location = Some (getFileUrl (cfg E) path))
       \<and> db w' (loc_id location) = Some location
       \<and> create E (dto\<lparr>c_image := url\<rparr>) userId (Some f) w = (Inr location, w')"
proof -
  obtain geo w1 where g: "geocodeAddress E (c_address dto) w = (Inr geo, w1)"
    using assms by (auto simp: create_def split: prod.splits sum.splits)
  obtain path w2 where u: "uploadFile E (Some f) LOCATIONS w1 = (Inr path, w2)"
    using assms g
    by (auto simp: create_def create_try_def create_image_def split: prod.splits sum.splits)
  let ?d = "create_data_of dto geo (Some (getFileUrl (cfg E) path)) userId"
  have c: "location_create E ?d w2 = (Inr location, w')"
    using assms g u
    by (auto simp: create_def create_try_def create_image_def split: prod.splits sum.splits)
  have 1: "loc_image location = Some (getFileUrl (cfg E) path)"
    and 2: "db w' (loc_id location) = Some location"
    using c by (auto simp: location_create_def create_data_of_def Let_def split: option.splits)
  have "create_data_of (dto\<lparr>c_image := url\<rparr>) geo (Some (getFileUrl (cfg E) path)) userId = ?d"
    by (simp add: create_data_of_def)
  then have 3: "create E (dto\<lparr>c_image := url\<rparr>) userId (Some f) w = (Inr location, w')"
    using g u c by (simp add: create_def create_try_def create_image_def)
  show ?thesis
    using g u 1 2 3 by simp
qed

theorem create_file_over_url_witness:
  "(\<exists>path. fst (uploadFile env0 (Some photo) LOCATIONS (snd (geocodeAddress env0 (c_address tower) world0)))
             = Inr path
         \<and> loc_image \<lparr>loc_id = ''loc1'', loc_name = ''Eiffel Tower'', loc_description = None,
               loc_latitude = 48, loc_longitude = 2,
               loc_image = Some ''http://localhost:9000/locations/uuid.jpg'', loc_userId = ''u1''\<rparr>
             = Some (getFileUrl (cfg env0) path))
   \<and> db (snd (create env0 tower ''u1'' (Some photo) world0))
        (loc_id \<lparr>loc_id = ''loc1'', loc_name = ''Eiffel Tower'', loc_description = None,
               loc_latitude = 48, loc_longitude = 2,
               loc_image = Some ''http://localhost:9000/locations/uuid.jpg'', loc_userId = ''u1''\<rparr>)
       = Some \<lparr>loc_id = ''loc1'', loc_name = ''Eiffel Tower'', loc_description = None,
               loc_latitude = 48, loc_longitude = 2,
               loc_image = Some ''http://localhost:9000/locations/uuid.jpg'', loc_userId = ''u1''\<rparr>
   \<and> create env0 (tower\<lparr>c_image := None\<rparr>) ''u1'' (Some photo) world0
       = (Inr \<lparr>loc_id = ''loc1'', loc_name = ''Eiffel Tower'', loc_description = None,
               loc_latitude = 48, loc_longitude = 2,
               loc_image = Some ''http://localhost:9000/locations/uuid.jpg'', loc_userId = ''u1''\<rparr>,
          snd (create env0 tower ''u1'' (Some photo) world0))"
proof -
  let ?geo = "\<lparr>latitude = 48, longitude = 2, formattedAddress = Some ''Paris''\<rparr>"
  let ?url = "''http://localhost:9000/locations/uuid.jpg''"
  let ?l = "\<lparr>loc_id = ''loc1'', loc_name = ''Eiffel Tower'', loc_description = None,
             loc_latitude = 48, loc_longitude = 2, loc_image = Some ?url, loc_userId = ''u1''\<rparr>"
  define w1 where "w1 = snd (geocodeAddress env0 (c_address tower) world0)"
  define w2 where "w2 = snd (uploadFile env0 (Some photo) LOCATIONS w1)"
  define w3 where "w3 = snd (location_create env0 (create_data_of tower ?geo (Some ?url) ''u1'') w2)"
  have g: "geocodeAddress env0 (c_address tower) world0 = (Inr ?geo, w1)"
    by (simp add: w1_def prod_eq_iff geocodeAddress_def forwardGeocode_def emit_def Let_def
        env0_def tower_def world0_def trim_def is_ws_def)
  have u: "uploadFile env0 (Some photo) LOCATIONS w1 = (Inr ''locations/uuid.jpg'', w2)"
    by (simp add: w2_def prod_eq_iff uploadFile_def putObject_def validateFile_def maxSize_def
        allowedTypes_def emit_def Let_def env0_def photo_def LOCATIONS_def)
  have b: "getFileUrl (cfg env0) ''locations/uuid.jpg'' = ?url"
    by (simp add: getFileUrl_def extractBucketAndFileName_def portSuffix_def validBuckets_def
        LOCATIONS_def falsy_def template_def split_def trim_def is_ws_def Let_def
        env0_def cfg0_def)
  have c: "location_create env0 (create_data_of tower ?geo (Some ?url) ''u1'') w2 = (Inr ?l, w3)"
    by (simp add: w3_def prod_eq_iff location_create_def create_data_of_def emit_def Let_def
        env0_def tower_def)
  have r: "create env0 tower ''u1'' (Some photo) world0 = (Inr ?l, w3)"
    by (simp add: create_def create_try_def create_image_def g u b c)
  have "create env0 tower ''u1'' (Some photo) world0
          = (Inr ?l, snd (create env0 tower ''u1'' (Some photo) world0))"
    by (simp add: r)
  then show ?thesis
    by (rule create_file_over_url)
qed

section \<open>Updating a location\<close>

lemma extractMinioPath_nonempty: "isMinioPath img \<Longrightarrow> extractMinioPath img \<noteq> []"
  by (auto simp: isMinioPath_def extractMinioPath_def Let_def split: if_splits)

lemma update_image_no_file:
  "update_image E keepImage None existing w =
     (Inr (if keepImage = Some False \<and> \<not> falsy (loc_image existing)
           then (Some [], None, old_image_path existing) else (None, None, None)), w)"
  by (simp add: update_image_def)

lemma location_update_row:
  assumes "location_update E ident d w = (Inr location, w')"
  shows "db w' ident = Some location"
    and "\<exists>row. db w ident = Some row
           \<and> loc_image location = (case ud_image d of None \<Rightarrow> loc_image row | Some x \<Rightarrow> Some x)"
  using assms
  by (auto simp: location_update_def Let_def emit_def split: option.splits)

text \<open>
  What a successful \<open>update\<close> without a file goes through: the row is read, the address (if
  any) is geocoded, the row is written, and the old image (if marked) is deleted.
\<close>

lemma update_no_file_steps:
  assumes "db w ident = Some existing"
    and "update E ident dto None w = (Inr location, w')"
  obtains w0 coordinates w1 w2 imageUrl oldImagePath where
    "findOne E ident w = (Inr existing, w0)"
    "update_coordinates E (u_address dto) w0 = (Inr coordinates, w1)"
    "update_image E (u_keepImage dto) None existing w1 = (Inr (imageUrl, None, oldImagePath), w1)"
    "location_update E ident (updateData dto coordinates imageUrl) w1 = (Inr location, w2)"
    "w' = deleteFile_caught E oldImagePath w2"
proof -
  obtain ex w0 where f: "findOne E ident w = (Inr ex, w0)"
    using assms(2) by (auto simp: update_def split: prod.splits sum.splits)
  have "ex = existing"
    using findOne_row [OF f] assms(1) by simp
  with f have f': "findOne E ident w = (Inr existing, w0)"
    by simp
  obtain up where t: "update_try E ident dto None existing w0 = ((Inr location, up), w')"
    using assms(2) f' by (auto simp: update_def split: prod.splits sum.splits)
  obtain coordinates w1 where c: "update_coordinates E (u_address dto) w0 = (Inr coordinates, w1)"
    using t by (auto simp: update_try_def split: prod.splits sum.splits)
  have "\<exists>imageUrl oldImagePath.
          update_image E (u_keepImage dto) None existing w1 = (Inr (imageUrl, None, oldImagePath), w1)"
    by (simp add: update_image_no_file)
  then obtain imageUrl oldImagePath where
    i: "update_image E (u_keepImage dto) None existing w1 = (Inr (imageUrl, None, oldImagePath), w1)"
    by blast
  obtain w2 where l: "location_update E ident (updateData dto coordinates imageUrl) w1 = (Inr location, w2)"
    and w': "w' = deleteFile_caught E oldImagePath w2"
    using t c i by (auto simp: update_try_def split: prod.splits sum.splits)
  show thesis
    using that [OF f' c i l w'] .
qed

lemma calls_projections:
  assumes "calls w' = calls w @ evs"
  shows "deletions w' = deletions w @ concat (map deleted evs)"
    and "image_writes w' = image_writes w @ concat (map written_image evs)"
  by (simp_all add: deletions_def image_writes_def assms)

lemma findOne_objects: "objects (snd (findOne E ident w)) = objects w"
  by (auto simp: findOne_def location_findUnique_def Let_def split: option.splits)

lemma update_coordinates_objects: "objects (snd (update_coordinates E address w)) = objects w"
  by (simp add: update_coordinates_def case_prod_beta geocodeAddress_frame split: sum.splits)

lemma location_update_objects: "objects (snd (location_update E ident d w)) = objects w"
  by (simp add: location_update_def Let_def split: option.splits)

lemma location_update_fails:
  "location_update E ident d w = (Inl error, w') \<Longrightarrow> db w' = db w"
  by (auto simp: location_update_def Let_def split: option.splits)

lemma deleteFile_keeps:
  assumes "extractBucketAndFileName path = (Some b, Some k)" and "bk \<noteq> (b, k)"
  shows "objects (snd (deleteFile E path w)) bk = objects w bk"
  using assms(2)
  by (simp add: deleteFile_def Let_def assms(1) case_prod_beta fileExists_frame removeObject_def
      split: sum.splits option.splits)

text \<open>
  Without a file, \<open>update\<close> ends where its first failing step ends, and otherwise with the
  outcome of the write; only after a write that succeeds is the old image deleted.
\<close>

lemma update_findOne_fails:
  "findOne E ident w = (Inl error, w0) \<Longrightarrow> update E ident dto imageFile w = (Inl error, w0)"
  by (simp add: update_def)

lemma update_no_file_geocode_fails:
  assumes "findOne E ident w = (Inr existing, w0)"
    and "update_coordinates E (u_address dto) w0 = (Inl error, w1)"
  shows "update E ident dto None w = (Inl error, w1)"
  by (simp add: update_def update_try_def assms deleteFile_caught_def falsy_def)

lemma update_no_file_outcome:
  assumes "findOne E ident w = (Inr existing, w0)"
    and "update_coordinates E (u_address dto) w0 = (Inr coordinates, w1)"
    and "update_image E (u_keepImage dto) None existing w1 = (Inr (imageUrl, uploaded, old), w2)"
    and "location_update E ident (updateData dto coordinates imageUrl) w2 = (r, w3)"
  shows "update E ident dto None w
           = (r, case r of Inl error \<Rightarrow> w3 | Inr location \<Rightarrow> deleteFile_caught E old w3)"
proof -
  have u: "uploaded = None"
    using assms(3) by (auto simp: update_image_no_file split: if_splits)
  show ?thesis
    by (cases r)
      (simp_all add: update_def update_try_def assms u deleteFile_caught_def falsy_def)
qed

text \<open>
  On a row whose image is a MinIO path (\<open>isMinioPath\<close>), an \<open>update\<close> with
  \<open>keepImage = false\<close> and no file that succeeds returns, and leaves in the database, the
  row with the empty string as its image; the write carries that empty image, and it is
  followed by one \<open>deleteFile\<close>, of the path that \<open>extractMinioPath\<close> reads in the old
  image.
\<close>

lemma update_clear_steps:
  assumes "db w ident = Some existing"
    and "loc_image existing = Some img" and "isMinioPath img"
    and "u_keepImage dto = Some False"
    and "update E ident dto None w = (Inr location, w')"
  shows "loc_image location = Some []"
    and "db w' ident = Some location"
    and "image_writes w' = image_writes w @ [[]]"
    and "deletions w' = deletions w @ [extractMinioPath img]"
    and "\<exists>w2. objects w2 = objects w \<and> w' = snd (deleteFile E (extractMinioPath img) w2)"
proof -
  obtain w0 coordinates w1 w2 imageUrl oldImagePath where
    f: "findOne E ident w = (Inr existing, w0)"
    and c: "update_coordinates E (u_address dto) w0 = (Inr coordinates, w1)"
    and i: "update_image E (u_keepImage dto) None existing w1 = (Inr (imageUrl, None, oldImagePath), w1)"
    and l: "location_update E ident (updateData dto coordinates imageUrl) w1 = (Inr location, w2)"
    and w': "w' = deleteFile_caught E oldImagePath w2"
    by (rule update_no_file_steps [OF assms(1,5)])
  have ne: "img \<noteq> []"
    using assms(3) by (auto simp: isMinioPath_def)
  have iu: "imageUrl = Some []" and old: "oldImagePath = Some (extractMinioPath img)"
    using i assms(2,3,4) ne by (simp_all add: update_image_no_file old_image_path_def falsy_def)
  let ?d = "updateData dto coordinates (Some [])"
  have d: "ud_image ?d = Some []"
    by (simp add: updateData_def)
  show "loc_image location = Some []"
    using location_update_row(2) [OF l] by (auto simp: iu d)
  have nf: "\<not> falsy oldImagePath"
    using extractMinioPath_nonempty [OF assms(3)] by (simp add: old falsy_def)
  then have w'': "w' = snd (deleteFile E (extractMinioPath img) w2)"
    by (simp add: w' deleteFile_caught_def old)
  show "db w' ident = Some location"
    using location_update_row(1) [OF l] by (simp add: w' deleteFile_caught_frame)
  have c0: "calls w0 = calls w @ [FindUnique ident]"
    using findOne_frame(1) [of E ident w] f by simp
  have c1: "calls w1 = calls w0
              @ (if falsy (u_address dto) then [] else [GeocodeCall (the (u_address dto))])"
    using update_coordinates_frame(1) [of E "u_address dto" w0] c by simp
  have c2: "calls w2 = calls w1 @ [DbUpdate ident ?d]"
    using location_update_calls [of E ident ?d w1] l iu by simp
  have "calls w' = calls w @ ([FindUnique ident]
                   @ (if falsy (u_address dto) then [] else [GeocodeCall (the (u_address dto))])
                   @ [DbUpdate ident ?d, DeleteCall (extractMinioPath img)])"
    using nf by (simp add: w' deleteFile_caught_calls c0 c1 c2 old)
  from calls_projections [OF this]
  show "image_writes w' = image_writes w @ [[]]"
    and "deletions w' = deletions w @ [extractMinioPath img]"
    by (simp_all add: d)
  have "objects w0 = objects w"
    using findOne_objects [of E ident w] f by simp
  moreover have "objects w1 = objects w0"
    using update_coordinates_objects [of E "u_address dto" w0] c by simp
  moreover have "objects w2 = objects w1"
    using location_update_objects [of E ident "updateData dto coordinates imageUrl" w1] l by simp
  ultimately have "objects w2 = objects w"
    by simp
  with w'' show "\<exists>w2. objects w2 = objects w \<and> w' = snd (deleteFile E (extractMinioPath img) w2)"
    by blast
qed

lemma findOne_env0: "db w ident = Some row \<Longrightarrow> fst (findOne env0 ident w) = Inr row"
  by (simp add: findOne_def location_findUnique_def Let_def env0_def)

text \<open>
  C3, as stated, fails, in two ways. First, the image may be the store's own URL of an
  object and \<open>deleteFile\<close> still be called for another key: \<open>getFileUrl\<close> trims the path, so
  the URL of the object stored under \<open>uuid.jpg\<close> followed by a space (the key that an upload
  of \<open>photo.jpg\<close> followed by a space gets) is read back as the key \<open>uuid.jpg\<close>; the update
  succeeds, the one deletion is for that other key, and the object stays in the store.
  Second, when the write to the database fails, the image is not cleared and no
  \<open>deleteFile\<close> is called.
\<close>

theorem update_keepImage_false_clears_counterexample:
  "BuildURL cfg0 ''locations'' ''uuid.jpg '' = ''http://localhost:9000/locations/uuid.jpg''
   \<and> db world_spaced ''loc1''
       = Some (row0\<lparr>loc_image := Some (BuildURL cfg0 ''locations'' ''uuid.jpg '')\<rparr>)
   \<and> objects world_spaced (''locations'', ''uuid.jpg '')
       = Some (photo\<lparr>originalname := ''photo.jpg ''\<rparr>)
   \<and> fst (update env0 ''loc1'' clear_image None world_spaced) = Inr (row0\<lparr>loc_image := Some []\<rparr>)
   \<and> deletions (snd (update env0 ''loc1'' clear_image None world_spaced)) = [''locations/uuid.jpg'']
   \<and> objects (snd (update env0 ''loc1'' clear_image None world_spaced)) (''locations'', ''uuid.jpg '')
       = Some (photo\<lparr>originalname := ''photo.jpg ''\<rparr>)
   \<and> db world_stored ''loc1'' = Some row0
   \<and> fst (update env_failing ''loc1'' clear_image None world_stored) = Inl (Error ''db down'')
   \<and> deletions (snd (update env_failing ''loc1'' clear_image None world_stored)) = []
   \<and> db (snd (update env_failing ''loc1'' clear_image None world_stored)) ''loc1'' = Some row0"
proof -
  let ?url = "''http://localhost:9000/locations/uuid.jpg''"
  let ?row = "row0\<lparr>loc_image := Some (BuildURL cfg0 ''locations'' ''uuid.jpg '')\<rparr>"
  let ?blob = "photo\<lparr>originalname := ''photo.jpg ''\<rparr>"
  let ?d = "updateData clear_image (None, None) (Some [])"
  have k: "u_keepImage clear_image = Some False" and a: "u_address clear_image = None"
    by (simp_all add: clear_image_def no_change_def)
  have c: "update_coordinates E (u_address clear_image) v = (Inr (None, None), v)" for E v
    by (simp add: update_coordinates_def a falsy_def)

  have b: "BuildURL cfg0 ''locations'' ''uuid.jpg '' = ?url"
    by (simp add: BuildURL_def getFileUrl_def extractBucketAndFileName_def portSuffix_def
        validBuckets_def LOCATIONS_def falsy_def template_def split_def trim_def is_ws_def
        Let_def cfg0_def)
  have r: "db world_spaced ''loc1'' = Some ?row"
    and ob: "objects world_spaced (''locations'', ''uuid.jpg '') = Some ?blob"
    and k0: "deletions world_spaced = []"
    by (simp_all add: world_spaced_def deletions_def calls_def)
  have i: "loc_image ?row = Some ?url"
    by (simp add: b)
  have m: "isMinioPath ?url"
    by (simp add: isMinioPath_def)
  have e: "extractMinioPath ?url = ''locations/uuid.jpg''"
    by (simp add: extractMinioPath_def split_def)
  have x: "extractBucketAndFileName ''locations/uuid.jpg'' = (Some ''locations'', Some ''uuid.jpg'')"
    by (simp add: extractBucketAndFileName_def validBuckets_def LOCATIONS_def split_def
        trim_def is_ws_def Let_def)
  define w0 where "w0 = snd (findOne env0 ''loc1'' world_spaced)"
  define w2 where "w2 = snd (location_update env0 ''loc1'' ?d w0)"
  have f: "findOne env0 ''loc1'' world_spaced = (Inr ?row, w0)"
    using findOne_env0 [OF r] by (simp add: w0_def prod_eq_iff)
  have d0: "db w0 ''loc1'' = Some ?row"
    using findOne_frame(2) [of env0 "''loc1''" world_spaced] r by (simp add: w0_def)
  have im: "update_image env0 (u_keepImage clear_image) None ?row w0
              = (Inr (Some [], None, old_image_path ?row), w0)"
    by (simp add: update_image_no_file k falsy_def b)
  have l: "location_update env0 ''loc1'' ?d w0 = (Inr (row0\<lparr>loc_image := Some []\<rparr>), w2)"
    by (simp add: w2_def prod_eq_iff location_update_def Let_def d0 updateData_def or_else_def
        clear_image_def no_change_def env0_def)
  have u: "update env0 ''loc1'' clear_image None world_spaced
             = (Inr (row0\<lparr>loc_image := Some []\<rparr>),
                snd (update env0 ''loc1'' clear_image None world_spaced))"
    using update_no_file_outcome [OF f c im l] by simp
  have 1: "deletions (snd (update env0 ''loc1'' clear_image None world_spaced))
             = [''locations/uuid.jpg'']"
    using update_clear_steps(4) [OF r i m k u] by (simp add: e k0)
  obtain v where v: "objects v = objects world_spaced"
    and "snd (update env0 ''loc1'' clear_image None world_spaced)
           = snd (deleteFile env0 (extractMinioPath ?url) v)"
    using update_clear_steps(5) [OF r i m k u] by blast
  then have 2: "objects (snd (update env0 ''loc1'' clear_image None world_spaced))
                  (''locations'', ''uuid.jpg '') = Some ?blob"
    using deleteFile_keeps [OF x, of "(''locations'', ''uuid.jpg '')" env0 v]
    by (simp add: e v ob)

  have r': "db world_stored ''loc1'' = Some row0" and k0': "deletions world_stored = []"
    by (simp_all add: world_stored_def deletions_def calls_def)
  define v0 where "v0 = snd (findOne env_failing ''loc1'' world_stored)"
  define v2 where "v2 = snd (location_update env_failing ''loc1'' ?d v0)"
  have f': "findOne env_failing ''loc1'' world_stored = (Inr row0, v0)"
    using r' by (simp add: v0_def prod_eq_iff findOne_def location_findUnique_def Let_def
        env_failing_def env0_def)
  have im': "update_image env_failing (u_keepImage clear_image) None row0 v0
              = (Inr (Some [], None, old_image_path row0), v0)"
    by (simp add: update_image_no_file k falsy_def row0_def)
  have l': "location_update env_failing ''loc1'' ?d v0 = (Inl (Error ''db down''), v2)"
    by (simp add: v2_def prod_eq_iff location_update_def Let_def env_failing_def env0_def)
  have u': "update env_failing ''loc1'' clear_image None world_stored = (Inl (Error ''db down''), v2)"
    using update_no_file_outcome [OF f' c im' l'] by simp
  have "calls v0 = calls world_stored @ [FindUnique ''loc1'']"
    using findOne_frame(1) [of env_failing "''loc1''" world_stored] by (simp add: v0_def)
  moreover have "calls v2 = calls v0 @ [DbUpdate ''loc1'' ?d]"
    using location_update_calls [of env_failing "''loc1''" ?d v0] by (simp add: v2_def)
  ultimately have "calls v2 = calls world_stored @ [FindUnique ''loc1'', DbUpdate ''loc1'' ?d]"
    by simp
  from calls_projections(1) [OF this] have 3: "deletions v2 = []"
    by (simp add: k0')
  have "db v0 = db world_stored"
    using findOne_frame(2) [of env_failing "''loc1''" world_stored] by (simp add: v0_def)
  then have 4: "db v2 ''loc1'' = Some row0"
    using location_update_fails [OF l'] r' by simp
  have 0: "fst (update env0 ''loc1'' clear_image None world_spaced) = Inr (row0\<lparr>loc_image := Some []\<rparr>)"
    using arg_cong [OF u, of fst] by simp
  show ?thesis
    using b r ob 0 1 2 r' 3 4 by (simp add: u')
qed

text \<open>
  C3, amended. Take a row whose image is the public URL that the store builds for a
  known bucket and a key, under the conditions in which that URL can be read back (the
  key is not empty, does not end with white space and does not contain \<open>/locations/\<close>; the
  endpoint and port hold no \<open>/\<close> and do not spell the host \<open>locations\<close>). An \<open>update\<close> of it
  with \<open>keepImage = false\<close> and no file that succeeds returns, and leaves in the database,
  the row with the empty string as its image; the one image value written is the empty
  string, and \<open>deleteFile\<close> is called once, with the path \<open>bucket/key\<close>.
\<close>

theorem update_keepImage_false_clears:
  assumes "bucket \<in> set validBuckets"
    and "key \<noteq> []" and "\<not> is_ws (last key)" and "\<not> includes_js key ''/locations/''"
    and "CHR ''/'' \<notin> set (template (MINIO_ENDPOINT (cfg E)) @ portSuffix (cfg E))"
    and "template (MINIO_ENDPOINT (cfg E)) @ portSuffix (cfg E) \<noteq> ''locations''"
    and "db w ident = Some existing"
    and "loc_image existing = Some (BuildURL (cfg E) bucket key)"
    and "u_keepImage dto = Some False"
    and "update E ident dto None w = (Inr location, w')"
  shows "loc_image location = Some []
       \<and> db w' ident = Some location
       \<and> image_writes w' = image_writes w @ [[]]
       \<and> deletions w' = deletions w @ [bucket @ ''/'' @ key]"
proof -
  have m: "isMinioPath (BuildURL (cfg E) bucket key)"
    and p: "extractMinioPath (BuildURL (cfg E) bucket key) = bucket @ ''/'' @ key"
    using extractMinioPath_BuildURL [OF assms(1-6)] by simp_all
  note s = update_clear_steps [OF assms(7,8) m assms(9,10)]
  show ?thesis
    using s(1-4) by (simp only: p simp_thms)
qed

theorem update_keepImage_false_clears_witness:
  "loc_image (row0\<lparr>loc_image := Some []\<rparr>) = Some []
   \<and> db (snd (update env0 ''loc1'' clear_image None world_stored)) ''loc1''
       = Some (row0\<lparr>loc_image := Some []\<rparr>)
   \<and> image_writes (snd (update env0 ''loc1'' clear_image None world_stored))
       = image_writes world_stored @ [[]]
   \<and> deletions (snd (update env0 ''loc1'' clear_image None world_stored))
       = deletions world_stored @ [''locations'' @ ''/'' @ ''old.jpg'']"
proof -
  let ?d = "updateData clear_image (None, None) (Some [])"
  have v: "''locations'' \<in> set validBuckets"
    by (simp add: validBuckets_def LOCATIONS_def)
  have h: "CHR ''/'' \<notin> set (template (MINIO_ENDPOINT (cfg env0)) @ portSuffix (cfg env0))"
    and h': "template (MINIO_ENDPOINT (cfg env0)) @ portSuffix (cfg env0) \<noteq> ''locations''"
    by (simp_all add: env0_def cfg0_def portSuffix_def template_def)
  have n: "''old.jpg'' \<noteq> []" and l: "\<not> is_ws (last ''old.jpg'')"
    and s: "\<not> includes_js ''old.jpg'' ''/locations/''"
    by (simp_all add: is_ws_def)
  have r: "db world_stored ''loc1'' = Some row0"
    by (simp add: world_stored_def)
  have b: "BuildURL (cfg env0) ''locations'' ''old.jpg'' = ''http://localhost:9000/locations/old.jpg''"
    by (simp add: BuildURL_def getFileUrl_def extractBucketAndFileName_def portSuffix_def
        validBuckets_def LOCATIONS_def falsy_def template_def split_def trim_def is_ws_def
        Let_def env0_def cfg0_def)
  have i: "loc_image row0 = Some (BuildURL (cfg env0) ''locations'' ''old.jpg'')"
    by (simp add: b) (simp add: row0_def)
  have k: "u_keepImage clear_image = Some False" and a: "u_address clear_image = None"
    by (simp_all add: clear_image_def no_change_def)
  define w0 where "w0 = snd (findOne env0 ''loc1'' world_stored)"
  define w2 where "w2 = snd (location_update env0 ''loc1'' ?d w0)"
  have f: "findOne env0 ''loc1'' world_stored = (Inr row0, w0)"
    using findOne_env0 [OF r] by (simp add: w0_def prod_eq_iff)
  have d0: "db w0 ''loc1'' = Some row0"
    using findOne_frame(2) [of env0 "''loc1''" world_stored] r by (simp add: w0_def)
  have c: "update_coordinates env0 (u_address clear_image) w0 = (Inr (None, None), w0)"
    by (simp add: update_coordinates_def a falsy_def)
  have im: "update_image env0 (u_keepImage clear_image) None row0 w0
              = (Inr (Some [], None, old_image_path row0), w0)"
    by (simp add: update_image_no_file k falsy_def row0_def)
  have lu: "location_update env0 ''loc1'' ?d w0 = (Inr (row0\<lparr>loc_image := Some []\<rparr>), w2)"
    by (simp add: w2_def prod_eq_iff location_update_def Let_def d0 updateData_def or_else_def
        clear_image_def no_change_def env0_def)
  have u: "update env0 ''loc1'' clear_image None world_stored
             = (Inr (row0\<lparr>loc_image := Some []\<rparr>),
                snd (update env0 ''loc1'' clear_image None world_stored))"
    using update_no_file_outcome [OF f c im lu] by simp
  show ?thesis
    by (rule update_keepImage_false_clears [OF v n l s h h' r i k u])
qed

text \<open>
  C10, as stated, fails: \<open>update\<close> spreads the rest of the request into the data it writes,
  and the request may hold an \<open>image\<close> of its own. With \<open>keepImage = false\<close>, no file and a
  row without image, a request that carries an image URL changes the image of the row to
  that URL. (No \<open>deleteFile\<close> is called, there as elsewhere.)
\<close>

theorem update_keepImage_false_bare_counterexample:
  "db world_bare ''loc1'' = Some (row0\<lparr>loc_image := None\<rparr>)
   \<and> u_keepImage clear_and_link = Some False
   \<and> fst (update env0 ''loc1'' clear_and_link None world_bare)
       = Inr (row0\<lparr>loc_image := Some ''https://example.com/image.jpg''\<rparr>)
   \<and> db (snd (update env0 ''loc1'' clear_and_link None world_bare)) ''loc1''
       = Some (row0\<lparr>loc_image := Some ''https://example.com/image.jpg''\<rparr>)
   \<and> deletions (snd (update env0 ''loc1'' clear_and_link None world_bare)) = []"
proof -
  let ?bare = "row0\<lparr>loc_image := None\<rparr>"
  let ?linked = "row0\<lparr>loc_image := Some ''https://example.com/image.jpg''\<rparr>"
  let ?d = "updateData clear_and_link (None, None) None"
  define w0 where "w0 = snd (findOne env0 ''loc1'' world_bare)"
  define w2 where "w2 = snd (location_update env0 ''loc1'' ?d w0)"
  have r: "db world_bare ''loc1'' = Some ?bare" and k0: "deletions world_bare = []"
    by (simp_all add: world_bare_def deletions_def calls_def)
  have k: "u_keepImage clear_and_link = Some False" and a: "u_address clear_and_link = None"
    by (simp_all add: clear_and_link_def no_change_def)
  have f: "findOne env0 ''loc1'' world_bare = (Inr ?bare, w0)"
    using findOne_env0 [OF r] by (simp add: w0_def prod_eq_iff)
  have d0: "db w0 ''loc1'' = Some ?bare"
    using findOne_frame(2) [of env0 "''loc1''" world_bare] r by (simp add: w0_def)
  have c: "update_coordinates env0 (u_address clear_and_link) w0 = (Inr (None, None), w0)"
    by (simp add: update_coordinates_def a falsy_def)
  have im: "update_image env0 (u_keepImage clear_and_link) None ?bare w0
              = (Inr (None, None, None), w0)"
    by (simp add: update_image_no_file k falsy_def)
  have l: "location_update env0 ''loc1'' ?d w0 = (Inr ?linked, w2)"
    by (simp add: w2_def prod_eq_iff location_update_def Let_def d0 updateData_def or_else_def
        clear_and_link_def no_change_def env0_def row0_def)
  have u: "update env0 ''loc1'' clear_and_link None world_bare = (Inr ?linked, w2)"
    using update_no_file_outcome [OF f c im l] by (simp add: deleteFile_caught_def falsy_def)
  have 1: "db w2 ''loc1'' = Some ?linked"
    using location_update_row(1) [OF l] .
  have "calls w0 = calls world_bare @ [FindUnique ''loc1'']"
    using findOne_frame(1) [of env0 "''loc1''" world_bare] by (simp add: w0_def)
  moreover have "calls w2 = calls w0 @ [DbUpdate ''loc1'' ?d]"
    using location_update_calls [of env0 "''loc1''" ?d w0] by (simp add: w2_def)
  ultimately have "calls w2 = calls world_bare @ [FindUnique ''loc1'', DbUpdate ''loc1'' ?d]"
    by simp
  from calls_projections(1) [OF this] have 2: "deletions w2 = []"
    by (simp add: k0)
  show ?thesis
    using r k 1 2 by (simp add: u)
qed

text \<open>
  C10, amended. On a row whose image is absent or empty, an \<open>update\<close> with
  \<open>keepImage = false\<close> and no file calls no \<open>deleteFile\<close>; and if the request holds no
  \<open>image\<close> of its own, it writes no image value and leaves the image of the row as it was,
  in the database and in the row it returns. This holds whether the update succeeds or
  not.
\<close>

theorem update_keepImage_false_bare:
  assumes "db w ident = Some existing"
    and "falsy (loc_image existing)"
    and "u_keepImage dto = Some False"
  shows "deletions (snd (update E ident dto None w)) = deletions w
       \<and> (u_image dto = None \<longrightarrow>
             image_writes (snd (update E ident dto None w)) = image_writes w
           \<and> (\<exists>row. db (snd (update E ident dto None w)) ident = Some row
                    \<and> loc_image row = loc_image existing)
           \<and> (\<forall>location. fst (update E ident dto None w) = Inr location
                    \<longrightarrow> loc_image location = loc_image existing))"
proof -
  let ?G = "\<lambda>r w'. deletions w' = deletions w
       \<and> (u_image dto = None \<longrightarrow>
             image_writes w' = image_writes w
           \<and> (\<exists>row. db w' ident = Some row \<and> loc_image row = loc_image existing)
           \<and> (\<forall>location. r = Inr location \<longrightarrow> loc_image location = loc_image existing))"
  obtain rf w0 where f: "findOne E ident w = (rf, w0)"
    by (cases "findOne E ident w")
  have c0: "calls w0 = calls w @ [FindUnique ident]" and d0: "db w0 = db w"
    using findOne_frame [of E ident w] f by simp_all
  have p0: "deletions w0 = deletions w" "image_writes w0 = image_writes w"
    using calls_projections [OF c0] by simp_all
  have "?G r w'" if "update E ident dto None w = (r, w')" for r w'
  proof (cases rf)
    case (Inl error)
    then have "update E ident dto None w = (Inl error, w0)"
      using f by (simp add: update_findOne_fails)
    with that have "r = Inl error" and "w' = w0"
      by simp_all
    then show ?thesis
      using p0 d0 assms(1) by simp
  next
    case (Inr ex)
    then have "ex = existing"
      using findOne_row [of E ident w ex w0] f assms(1) by simp
    with Inr f have f': "findOne E ident w = (Inr existing, w0)"
      by simp
    obtain rc w1 where c: "update_coordinates E (u_address dto) w0 = (rc, w1)"
      by (cases "update_coordinates E (u_address dto) w0")
    have c1: "calls w1 = calls w0
                @ (if falsy (u_address dto) then [] else [GeocodeCall (the (u_address dto))])"
      and d1: "db w1 = db w0"
      using update_coordinates_frame [of E "u_address dto" w0] c by simp_all
    have p1: "deletions w1 = deletions w" "image_writes w1 = image_writes w"
      using calls_projections [OF c1] p0 by simp_all
    show ?thesis
    proof (cases rc)
      case (Inl error)
      then have "update E ident dto None w = (Inl error, w1)"
        using update_no_file_geocode_fails [OF f'] c by simp
      with that have "r = Inl error" and "w' = w1"
        by simp_all
      then show ?thesis
        using p1 d1 d0 assms(1) by simp
    next
      case (Inr coordinates)
      let ?d = "updateData dto coordinates None"
      have c': "update_coordinates E (u_address dto) w0 = (Inr coordinates, w1)"
        using c Inr by simp
      have im: "update_image E (u_keepImage dto) None existing w1 = (Inr (None, None, None), w1)"
        using assms(2) by (simp add: update_image_no_file)
      obtain rl w2 where l: "location_update E ident ?d w1 = (rl, w2)"
        by (cases "location_update E ident ?d w1")
      have d: "ud_image ?d = u_image dto"
        by (simp add: updateData_def)
      have c2: "calls w2 = calls w1 @ [DbUpdate ident ?d]"
        using location_update_calls [of E ident ?d w1] l by simp
      have p2: "deletions w2 = deletions w"
        and p2': "u_image dto = None \<Longrightarrow> image_writes w2 = image_writes w"
        using calls_projections [OF c2] p1 by (simp_all add: d)
      have "update E ident dto None w = (rl, w2)"
        using update_no_file_outcome [OF f' c' im l]
        by (cases rl) (simp_all add: deleteFile_caught_def falsy_def)
      with that have rw: "r = rl" "w' = w2"
        by simp_all
      have row: "db w1 ident = Some existing"
        using d1 d0 assms(1) by simp
      show ?thesis
      proof (cases rl)
        case (Inl error)
        then have "db w2 = db w1"
          using location_update_fails [of E ident ?d w1 error w2] l by simp
        then show ?thesis
          using p2 p2' row Inl by (simp add: rw)
      next
        case (Inr location)
        then have l': "location_update E ident ?d w1 = (Inr location, w2)"
          using l by simp
        have "db w2 ident = Some location"
          using location_update_row(1) [OF l'] .
        moreover have "u_image dto = None \<Longrightarrow> loc_image location = loc_image existing"
          using location_update_row(2) [OF l'] row by (auto simp: d)
        ultimately show ?thesis
          using p2 p2' Inr by (simp add: rw)
      qed
    qed
  qed
  from this [of "fst (update E ident dto None w)" "snd (update E ident dto None w)"]
  show ?thesis
    by simp
qed

theorem update_keepImage_false_bare_witness:
  "deletions (snd (update env0 ''loc1'' clear_image None world_bare)) = deletions world_bare
   \<and> image_writes (snd (update env0 ''loc1'' clear_image None world_bare))
       = image_writes world_bare
   \<and> (\<exists>row. db (snd (update env0 ''loc1'' clear_image None world_bare)) ''loc1'' = Some row
            \<and> loc_image row = None)"
proof -
  have r: "db world_bare ''loc1'' = Some (row0\<lparr>loc_image := None\<rparr>)"
    by (simp add: world_bare_def)
  have n: "falsy (loc_image (row0\<lparr>loc_image := None\<rparr>))"
    by (simp add: falsy_def)
  have k: "u_keepImage clear_image = Some False" and u: "u_image clear_image = None"
    by (simp_all add: clear_image_def no_change_def)
  show ?thesis
    using update_keepImage_false_bare [OF r n k, of env0] u by simp
qed

text \<open>That run succeeds, and returns the row as it was.\<close>

lemma update_keepImage_false_bare_run:
  "fst (update env0 ''loc1'' clear_image None world_bare) = Inr (row0\<lparr>loc_image := None\<rparr>)"
proof -
  let ?bare = "row0\<lparr>loc_image := None\<rparr>"
  let ?d = "updateData clear_image (None, None) None"
  define w0 where "w0 = snd (findOne env0 ''loc1'' world_bare)"
  define w2 where "w2 = snd (location_update env0 ''loc1'' ?d w0)"
  have r: "db world_bare ''loc1'' = Some ?bare"
    by (simp add: world_bare_def)
  have k: "u_keepImage clear_image = Some False" and a: "u_address clear_image = None"
    by (simp_all add: clear_image_def no_change_def)
  have f: "findOne env0 ''loc1'' world_bare = (Inr ?bare, w0)"
    using findOne_env0 [OF r] by (simp add: w0_def prod_eq_iff)
  have d0: "db w0 ''loc1'' = Some ?bare"
    using findOne_frame(2) [of env0 "''loc1''" world_bare] r by (simp add: w0_def)
  have c: "update_coordinates env0 (u_address clear_image) w0 = (Inr (None, None), w0)"
    by (simp add: update_coordinates_def a falsy_def)
  have im: "update_image env0 (u_keepImage clear_image) None ?bare w0 = (Inr (None, None, None), w0)"
    by (simp add: update_image_no_file k falsy_def)
  have l: "location_update env0 ''loc1'' ?d w0 = (Inr ?bare, w2)"
    by (simp add: w2_def prod_eq_iff location_update_def Let_def d0 updateData_def or_else_def
        clear_image_def no_change_def env0_def row0_def)
  show ?thesis
    using update_no_file_outcome [OF f c im l] by simp
qed

text \<open>
  C2. Take an \<open>update\<close> with a file, whose row is found, whose address (if any) is
  geocoded and whose file is uploaded to \<open>path\<close>. If the write to the database then
  fails with \<open>error\<close>, \<open>update\<close> fails with \<open>error\<close> itself, having called \<open>deleteFile\<close> once,
  on \<open>path\<close>, after the write: what that deletion returns is dropped. If the write
  succeeds, \<open>update\<close> returns the written row: what the deletion of the old image returns
  is dropped as well.
\<close>

theorem update_rollback:
  assumes "findOne E ident w = (Inr existing, w0)"
    and "update_coordinates E (u_address dto) w0 = (Inr coordinates, w1)"
    and "uploadFile E (Some f) LOCATIONS w1 = (Inr path, w2)"
    and "location_update E ident (updateData dto coordinates (Some (getFileUrl (cfg E) path))) w2
           = (r, w3)"
  shows "(\<forall>error. r = Inl error \<longrightarrow>
            fst (update E ident dto (Some f) w) = Inl error
          \<and> calls (snd (update E ident dto (Some f) w))
              = calls w @ [FindUnique ident]
                @ (if falsy (u_address dto) then [] else [GeocodeCall (the (u_address dto))])
                @ [UploadCall (Some f) LOCATIONS,
                   DbUpdate ident (updateData dto coordinates (Some (getFileUrl (cfg E) path))),
                   DeleteCall path])
       \<and> (\<forall>location. r = Inr location \<longrightarrow> fst (update E ident dto (Some f) w) = Inr location)"
proof (intro conjI allI impI)
  let ?d = "updateData dto coordinates (Some (getFileUrl (cfg E) path))"
  have i: "update_image E (u_keepImage dto) (Some f) existing w1
             = (Inr (Some (getFileUrl (cfg E) path), Some path, old_image_path existing), w2)"
    by (simp add: update_image_def assms(3))
  {
    fix error
    assume r: "r = Inl error"
    have t: "update_try E ident dto (Some f) existing w0 = ((Inl error, Some path), w3)"
      using assms(4) by (simp add: update_try_def assms(2) i r)
    have u: "update E ident dto (Some f) w = (Inl error, deleteFile_caught E (Some path) w3)"
      by (simp add: update_def assms(1) t)
    show "fst (update E ident dto (Some f) w) = Inl error"
      by (simp add: u)
    have c0: "calls w0 = calls w @ [FindUnique ident]"
      using findOne_frame(1) [of E ident w] assms(1) by simp
    have c1: "calls w1 = calls w0
                @ (if falsy (u_address dto) then [] else [GeocodeCall (the (u_address dto))])"
      using update_coordinates_frame(1) [of E "u_address dto" w0] assms(2) by simp
    have c2: "calls w2 = calls w1 @ [UploadCall (Some f) LOCATIONS]"
      using uploadFile_calls [of E "Some f" LOCATIONS w1] assms(3) by simp
    have c3: "calls w3 = calls w2 @ [DbUpdate ident ?d]"
      using location_update_calls [of E ident ?d w2] assms(4) by simp
    have p: "\<not> falsy (Some path)"
      using uploadFile_path [OF assms(3)] by (simp add: falsy_def)
    show "calls (snd (update E ident dto (Some f) w))
            = calls w @ [FindUnique ident]
              @ (if falsy (u_address dto) then [] else [GeocodeCall (the (u_address dto))])
              @ [UploadCall (Some f) LOCATIONS, DbUpdate ident ?d, DeleteCall path]"
      using p by (simp add: u deleteFile_caught_calls c0 c1 c2 c3)
  }
  {
    fix location
    assume r: "r = Inr location"
    have t: "update_try E ident dto (Some f) existing w0
               = ((Inr location, Some path), deleteFile_caught E (old_image_path existing) w3)"
      using assms(4) by (simp add: update_try_def assms(2) i r)
    show "fst (update E ident dto (Some f) w) = Inr location"
      by (simp add: update_def assms(1) t)
  }
qed

text \<open>
  In the first run below the write fails and the deletion of the uploaded file fails
  too; in the second the write succeeds and the deletion of the old image fails.
\<close>

theorem update_rollback_witness:
  "fst (update env_failing ''loc1'' no_change (Some photo) world_stored) = Inl (Error ''db down'')
   \<and> calls (snd (update env_failing ''loc1'' no_change (Some photo) world_stored))
       = calls world_stored @ [FindUnique ''loc1'', UploadCall (Some photo) LOCATIONS,
           DbUpdate ''loc1'' (updateData no_change (None, None)
             (Some (getFileUrl (cfg env_failing) ''locations/uuid.jpg''))),
           DeleteCall ''locations/uuid.jpg'']
   \<and> fst (update env_store_down ''loc1'' no_change (Some photo) world_stored)
       = Inr (row0\<lparr>loc_image := Some ''http://localhost:9000/locations/uuid.jpg''\<rparr>)"
proof -
  let ?url = "''http://localhost:9000/locations/uuid.jpg''"
  have r: "db world_stored ''loc1'' = Some row0"
    by (simp add: world_stored_def)
  have a: "u_address no_change = None"
    by (simp add: no_change_def)
  have b: "getFileUrl cfg0 ''locations/uuid.jpg'' = ?url"
    by (simp add: getFileUrl_def extractBucketAndFileName_def portSuffix_def validBuckets_def
        LOCATIONS_def falsy_def template_def split_def trim_def is_ws_def Let_def cfg0_def)
  have cf: "cfg env_failing = cfg0" and cs: "cfg env_store_down = cfg0"
    by (simp_all add: env_failing_def env_store_down_def env0_def)
  let ?d = "\<lambda>E. updateData no_change (None, None) (Some (getFileUrl (cfg E) ''locations/uuid.jpg''))"

  define v0 where "v0 = snd (findOne env_failing ''loc1'' world_stored)"
  define v2 where "v2 = snd (uploadFile env_failing (Some photo) LOCATIONS v0)"
  define v3 where "v3 = snd (location_update env_failing ''loc1'' (?d env_failing) v2)"
  have f1: "findOne env_failing ''loc1'' world_stored = (Inr row0, v0)"
    using r by (simp add: v0_def prod_eq_iff findOne_def location_findUnique_def Let_def
        env_failing_def env0_def)
  have c1: "update_coordinates env_failing (u_address no_change) v0 = (Inr (None, None), v0)"
    by (simp add: update_coordinates_def a falsy_def)
  have u1: "uploadFile env_failing (Some photo) LOCATIONS v0 = (Inr ''locations/uuid.jpg'', v2)"
    by (simp add: v2_def prod_eq_iff uploadFile_def putObject_def validateFile_def maxSize_def
        allowedTypes_def emit_def Let_def env_failing_def env0_def photo_def LOCATIONS_def)
  have l1: "location_update env_failing ''loc1'' (?d env_failing) v2 = (Inl (Error ''db down''), v3)"
    by (simp add: v3_def prod_eq_iff location_update_def Let_def env_failing_def env0_def)

  define x0 where "x0 = snd (findOne env_store_down ''loc1'' world_stored)"
  define x2 where "x2 = snd (uploadFile env_store_down (Some photo) LOCATIONS x0)"
  define x3 where "x3 = snd (location_update env_store_down ''loc1'' (?d env_store_down) x2)"
  have f2: "findOne env_store_down ''loc1'' world_stored = (Inr row0, x0)"
    using r by (simp add: x0_def prod_eq_iff findOne_def location_findUnique_def Let_def
        env_store_down_def env0_def)
  have c2: "update_coordinates env_store_down (u_address no_change) x0 = (Inr (None, None), x0)"
    by (simp add: update_coordinates_def a falsy_def)
  have u2: "uploadFile env_store_down (Some photo) LOCATIONS x0 = (Inr ''locations/uuid.jpg'', x2)"
    by (simp add: x2_def prod_eq_iff uploadFile_def putObject_def validateFile_def maxSize_def
        allowedTypes_def emit_def Let_def env_store_down_def env0_def photo_def LOCATIONS_def)
  have "db x0 = db world_stored"
    using findOne_frame(2) [of env_store_down "''loc1''" world_stored] by (simp add: x0_def)
  moreover have "db x2 = db x0"
    by (simp add: x2_def uploadFile_def putObject_def emit_def Let_def case_prod_beta
        split: option.splits sum.splits)
  ultimately have d2: "db x2 ''loc1'' = Some row0"
    using r by simp
  have l2: "location_update env_store_down ''loc1'' (?d env_store_down) x2
              = (Inr (row0\<lparr>loc_image := Some ?url\<rparr>), x3)"
    by (simp add: x3_def prod_eq_iff location_update_def Let_def d2 updateData_def or_else_def
        no_change_def cs b env_store_down_def env0_def)
  show ?thesis
    using update_rollback [OF f1 c1 u1 l1] update_rollback [OF f2 c2 u2 l2]
    by (simp add: a falsy_def)
qed

text \<open>In that first run the deletion of the uploaded file does fail.\<close>

lemma deleteFile_fails_when_store_down:
  assumes "objects w (''locations'', ''uuid.jpg'') = Some f"
  shows "fst (deleteFile env_failing ''locations/uuid.jpg'' w)
           = Inl (BadRequestException ''Erro ao deletar: store down'')"
proof -
  have e: "extractBucketAndFileName ''locations/uuid.jpg'' = (Some ''locations'', Some ''uuid.jpg'')"
    by (simp add: extractBucketAndFileName_def validBuckets_def LOCATIONS_def split_def
        trim_def is_ws_def Let_def)
  show ?thesis
    using assms
    by (simp add: deleteFile_def e falsy_def fileExists_def statObject_def removeObject_def
        emit_def Let_def env_failing_def env0_def)
qed

end
